theory Spec2Isabelle
  imports Main "HOL-Library.Word" "HOL-Library.Sublist" "HOL-Library.AList"
begin

unbundle bit_operations_syntax

section \<open>Health state (utils/types.h, utils/types.cpp)\<close>

text \<open>
  \<^verbatim>\<open>enum class HealthStatus { Starting, Healthy, Degraded, Unhealthy }\<close> and
  \<^verbatim>\<open>struct HealthState\<close>. A \<^verbatim>\<open>steady_clock::time_point\<close> is a count of
  nanosecond ticks; the lines written through spdlog are kept in \<open>health_log\<close>.
\<close>

datatype HealthStatus = Starting | Healthy | Degraded | Unhealthy

datatype health_log_entry =
    StatusChanged HealthStatus HealthStatus
  | StatusHeartbeat HealthStatus bool bool

record HealthState =
  status :: HealthStatus
  command_connected :: bool
  feedback_connected :: bool
  last_health_log :: int
  health_log :: "health_log_entry list"

text \<open>The constructor: the member initialisers of the struct, and the clock read once.\<close>

definition HealthState_new :: "int \<Rightarrow> HealthState" where
  "HealthState_new now =
     \<lparr>status = Starting, command_connected = False, feedback_connected = False,
      last_health_log = now, health_log = []\<rparr>"

text \<open>\<^verbatim>\<open>duration_cast<seconds>\<close> of a tick difference: integer division truncating to zero.\<close>

definition duration_cast_seconds :: "int \<Rightarrow> int" where
  "duration_cast_seconds d =
     (if 0 \<le> d then d div 1000000000 else - ((- d) div 1000000000))"

definition update_overall_status :: "int \<Rightarrow> HealthState \<Rightarrow> HealthState" where
  "update_overall_status now h =
     (let new_status =
            (if command_connected h \<and> feedback_connected h then Healthy
             else if command_connected h then Degraded
             else Unhealthy)
      in if new_status \<noteq> status h
         then h\<lparr>status := new_status, last_health_log := now,
                health_log := health_log h @ [StatusChanged (status h) new_status]\<rparr>
         else if 30 \<le> duration_cast_seconds (now - last_health_log h)
         then h\<lparr>last_health_log := now,
                health_log := health_log h @
                  [StatusHeartbeat (status h) (command_connected h) (feedback_connected h)]\<rparr>
         else h)"

definition update_command_connection :: "bool \<Rightarrow> int \<Rightarrow> HealthState \<Rightarrow> HealthState" where
  "update_command_connection connected now h =
     update_overall_status now (h\<lparr>command_connected := connected\<rparr>)"

definition update_feedback_connection :: "bool \<Rightarrow> int \<Rightarrow> HealthState \<Rightarrow> HealthState" where
  "update_feedback_connection connected now h =
     update_overall_status now (h\<lparr>feedback_connected := connected\<rparr>)"

text \<open>
  A run of the two mutators, each with the clock reading it sees. The spec calls them
  \<open>mark_command\<close> and \<open>mark_feedback\<close>.
\<close>

datatype health_update = MarkCommand bool | MarkFeedback bool

fun apply_health_update :: "HealthState \<Rightarrow> health_update \<times> int \<Rightarrow> HealthState" where
  "apply_health_update h (MarkCommand b, now) = update_command_connection b now h"
| "apply_health_update h (MarkFeedback b, now) = update_feedback_connection b now h"

definition run_health_updates :: "HealthState \<Rightarrow> (health_update \<times> int) list \<Rightarrow> HealthState" where
  "run_health_updates h ups = foldl apply_health_update h ups"

text \<open>The derivation table of the spec (section 4.1), written from its rows.\<close>

fun status_table :: "bool \<Rightarrow> bool \<Rightarrow> HealthStatus" where
  "status_table False _ = Unhealthy"
| "status_table True False = Degraded"
| "status_table True True = Healthy"

section \<open>The C and C++ library functions the bridge calls\<close>

text \<open>
  A \<^verbatim>\<open>std::string\<close> is a list of bytes. The predicates are those of the "C" locale.
\<close>

definition NUL :: char where
  "NUL = CHR 0x00"

definition isspace :: "char \<Rightarrow> bool" where
  "isspace c = (c = CHR '' '' \<or> c = CHR 0x09 \<or> c = CHR 0x0A \<or> c = CHR 0x0B
                \<or> c = CHR 0x0C \<or> c = CHR 0x0D)"

definition isdigit :: "char \<Rightarrow> bool" where
  "isdigit c = (48 \<le> (of_char c :: nat) \<and> (of_char c :: nat) \<le> 57)"

definition digit_value :: "char \<Rightarrow> nat" where
  "digit_value c = of_char c - 48"

definition digits_value :: "string \<Rightarrow> nat" where
  "digits_value ds = foldl (\<lambda>a c. 10 * a + digit_value c) 0 ds"

definition digit_char :: "nat \<Rightarrow> char" where
  "digit_char d = char_of (48 + d)"

text \<open>\<^verbatim>\<open>std::to_string\<close> of an unsigned and of a signed integer: decimal, no padding.\<close>

fun to_string_nat :: "nat \<Rightarrow> string" where
  "to_string_nat n =
     (if n < 10 then [digit_char n] else to_string_nat (n div 10) @ [digit_char (n mod 10)])"

declare to_string_nat.simps [simp del]

definition to_string_int :: "int \<Rightarrow> string" where
  "to_string_int i = (if i < 0 then CHR ''-'' # to_string_nat (nat (- i)) else to_string_nat (nat i))"

text \<open>
  \<^verbatim>\<open>::tolower\<close> on one byte and \<^verbatim>\<open>std::transform(..., ::tolower)\<close> on a string.
\<close>

definition tolower :: "char \<Rightarrow> char" where
  "tolower c =
     (if 65 \<le> (of_char c :: nat) \<and> (of_char c :: nat) \<le> 90 then char_of (of_char c + 32 :: nat)
      else c)"

text \<open>
  \<^verbatim>\<open>std::string::find(needle)\<close>: the position of the first occurrence, \<open>None\<close> for
  \<^verbatim>\<open>npos\<close>.
\<close>

fun string_find :: "string \<Rightarrow> string \<Rightarrow> nat option" where
  "string_find [] needle = (if needle = [] then Some 0 else None)"
| "string_find (c # cs) needle =
     (if prefix needle (c # cs) then Some 0 else map_option Suc (string_find cs needle))"

text \<open>
  \<^verbatim>\<open>operator+(const std::string&, const char*)\<close> appends the C string its second
  argument points to: the bytes of the array before its first NUL.
\<close>

definition string_plus_cstr :: "string \<Rightarrow> string \<Rightarrow> string" where
  "string_plus_cstr s array = s @ takeWhile (\<lambda>c. c \<noteq> NUL) array"

text \<open>
  \<^verbatim>\<open>std::string(const char*)\<close> builds a string from a C string in the same way.
\<close>

definition string_of_cstr :: "string \<Rightarrow> string" where
  "string_of_cstr array = takeWhile (\<lambda>c. c \<noteq> NUL) array"

text \<open>
  The exceptions of the standard library and of JsonCpp that the bridge catches as
  \<^verbatim>\<open>std::exception\<close>. The message is kept.
\<close>

datatype exception =
    runtime_error string
  | invalid_argument string
  | out_of_range string
  | LogicError string

text \<open>
  \<^verbatim>\<open>std::stoi(str)\<close>, that is \<^verbatim>\<open>strtol(str, &end, 10)\<close> with the checks of the
  wrapper: leading white space is skipped, one sign is accepted, the digits that follow are
  converted; no digit raises \<^verbatim>\<open>invalid_argument\<close>, a value outside \<^verbatim>\<open>int\<close>
  raises \<^verbatim>\<open>out_of_range\<close>.
\<close>

definition strip_sign :: "string \<Rightarrow> string" where
  "strip_sign b =
     (case b of [] \<Rightarrow> [] | c # cs \<Rightarrow> if c = CHR ''-'' \<or> c = CHR ''+'' then cs else b)"

definition is_negative :: "string \<Rightarrow> bool" where
  "is_negative b = (case b of [] \<Rightarrow> False | c # cs \<Rightarrow> c = CHR ''-'')"

definition stoi :: "string \<Rightarrow> exception + int" where
  "stoi str =
     (let b = dropWhile isspace str;
          ds = takeWhile isdigit (strip_sign b);
          v = (if is_negative b then - int (digits_value ds) else int (digits_value ds))
      in if ds = [] then Inl (invalid_argument ''stoi'')
         else if v < - 2147483648 \<or> 2147483647 < v then Inl (out_of_range ''stoi'')
         else Inr v)"

text \<open>\<^verbatim>\<open>static_cast<int>\<close> of a \<^verbatim>\<open>size_t\<close>: the low 32 bits, read as signed.\<close>

definition static_cast_int :: "nat \<Rightarrow> int" where
  "static_cast_int n = sint (word_of_nat n :: 32 word)"


section \<open>JSON values (JsonCpp)\<close>

text \<open>
  A \<^verbatim>\<open>Json::Value\<close>. The type \<open>'d\<close> stands for \<^verbatim>\<open>double\<close> throughout: the bridge
  stores, copies, prints and compares doubles, and the functions of the C library that
  print and read them are parameters of the model (record \<open>platform\<close> below).
\<close>

datatype 'd json =
    JNull
  | JBool bool
  | JInt int
  | JReal 'd
  | JString string
  | JArray "'d json list"
  | JObject "(string \<times> 'd json) list"

text \<open>
  What \<^verbatim>\<open>Json::Reader::parse\<close> does with a document: it returns true and the value read,
  or it returns false and leaves a value behind, or it throws (the reader has a nesting
  limit).
\<close>

datatype 'd reader_result = Parsed "'d json" | Rejected "'d json" | Raised exception

text \<open>
  The platform: the C library's reading and printing of doubles and the JSON reader.
  \<open>num_get_double\<close> is given the stream's remaining bytes, the first of them not white
  space, and returns the value it stores, whether the conversion failed, and the bytes
  it leaves.
\<close>

record 'd platform =
  num_get_double :: "string \<Rightarrow> 'd \<times> bool \<times> string"
  to_string_double :: "'d \<Rightarrow> string"
  Json_Reader_parse :: "string \<Rightarrow> 'd reader_result"

text \<open>
  \<^verbatim>\<open>Value::isMember\<close>, \<^verbatim>\<open>Value::operator[]\<close> with a key, \<^verbatim>\<open>Value::asString\<close> and
  the values a range-for visits. The accessors throw \<^verbatim>\<open>Json::LogicError\<close> on a value of
  the wrong kind.
\<close>

definition isMember :: "string \<Rightarrow> 'd json \<Rightarrow> exception + bool" where
  "isMember key v =
     (case v of
        JNull \<Rightarrow> Inr False
      | JObject ms \<Rightarrow> Inr (key \<in> set (map fst ms))
      | _ \<Rightarrow> Inl (LogicError ''in Json::Value::find(begin, end): requires objectValue or nullValue''))"

definition json_member :: "string \<Rightarrow> 'd json \<Rightarrow> exception + 'd json" where
  "json_member key v =
     (case v of
        JNull \<Rightarrow> Inr JNull
      | JObject ms \<Rightarrow> Inr (case map_of ms key of None \<Rightarrow> JNull | Some x \<Rightarrow> x)
      | _ \<Rightarrow> Inl (LogicError ''in Json::Value::operator[](char const*): requires objectValue''))"

definition asString :: "'d platform \<Rightarrow> 'd json \<Rightarrow> exception + string" where
  "asString pf v =
     (case v of
        JNull \<Rightarrow> Inr []
      | JString s \<Rightarrow> Inr s
      | JBool b \<Rightarrow> Inr (if b then ''true'' else ''false'')
      | JInt i \<Rightarrow> Inr (to_string_int i)
      | JReal d \<Rightarrow> Inr (to_string_double pf d)
      | _ \<Rightarrow> Inl (LogicError ''Type is not convertible to string''))"

definition json_elements :: "'d json \<Rightarrow> 'd json list" where
  "json_elements v =
     (case v of JArray xs \<Rightarrow> xs | JObject ms \<Rightarrow> map snd ms | _ \<Rightarrow> [])"

section \<open>Formatted input from a \<^verbatim>\<open>std::istringstream\<close>\<close>

text \<open>
  The stream is the bytes not yet read and two state bits. Each extraction takes the
  stream and the current value of the variable it writes to, and returns both: an
  extraction whose sentry fails leaves the variable as it was.
\<close>

record istringstream =
  buf :: string
  eofbit :: bool
  failbit :: bool

definition istringstream_new :: "string \<Rightarrow> istringstream" where
  "istringstream_new str = \<lparr>buf = str, eofbit = False, failbit = False\<rparr>"

text \<open>The sentry of a formatted input function: it skips white space.\<close>

definition sentry :: "istringstream \<Rightarrow> bool \<times> istringstream" where
  "sentry s =
     (if eofbit s \<or> failbit s then (False, s\<lparr>failbit := True\<rparr>)
      else let r = dropWhile isspace (buf s)
           in if r = [] then (False, s\<lparr>buf := [], eofbit := True, failbit := True\<rparr>)
              else (True, s\<lparr>buf := r\<rparr>))"

text \<open>The sentry of \<^verbatim>\<open>std::getline\<close>, which skips nothing.\<close>

definition sentry_noskipws :: "istringstream \<Rightarrow> bool \<times> istringstream" where
  "sentry_noskipws s =
     (if eofbit s \<or> failbit s then (False, s\<lparr>failbit := True\<rparr>) else (True, s))"

text \<open>\<^verbatim>\<open>iss >> str\<close> for a \<^verbatim>\<open>std::string\<close>: the bytes up to the next white space.\<close>

definition get_string :: "istringstream \<Rightarrow> string \<Rightarrow> istringstream \<times> string" where
  "get_string s v =
     (case sentry s of
        (False, s') \<Rightarrow> (s', v)
      | (True, s') \<Rightarrow>
          (let r = dropWhile (\<lambda>c. \<not> isspace c) (buf s')
           in (s'\<lparr>buf := r, eofbit := (r = [])\<rparr>, takeWhile (\<lambda>c. \<not> isspace c) (buf s'))))"

text \<open>
  \<^verbatim>\<open>num_get\<close> for \<^verbatim>\<open>unsigned int\<close> in base 10: a sign is consumed, then the digits.
  No digit stores 0 and fails; a value above \<^verbatim>\<open>UINT_MAX\<close> stores \<^verbatim>\<open>UINT_MAX\<close> and
  fails; a minus sign negates modulo \<open>2^32\<close>. The result is the value stored, the
  failure flag and the bytes left.
\<close>

definition num_get_unsigned :: "string \<Rightarrow> 32 word \<times> bool \<times> string" where
  "num_get_unsigned b =
     (let ds = takeWhile isdigit (strip_sign b);
          r = dropWhile isdigit (strip_sign b);
          n = digits_value ds
      in if ds = [] then (0, True, r)
         else if 4294967295 < n then (- 1, True, r)
         else if is_negative b then (- word_of_nat n, False, r)
         else (word_of_nat n, False, r))"

text \<open>
  \<^verbatim>\<open>num_get\<close> for \<^verbatim>\<open>bool\<close> without \<^verbatim>\<open>boolalpha\<close>: the field is read as a
  \<^verbatim>\<open>long\<close>; 0 and 1 are the two values, anything else stores true and fails; a field
  with no digit reads as the long 0 with the failure kept.
\<close>

definition num_get_bool :: "string \<Rightarrow> bool \<times> bool \<times> string" where
  "num_get_bool b =
     (let ds = takeWhile isdigit (strip_sign b);
          r = dropWhile isdigit (strip_sign b);
          n = digits_value ds
      in if ds = [] then (False, True, r)
         else if n = 0 then (False, False, r)
         else if n = 1 \<and> \<not> is_negative b then (True, False, r)
         else (True, True, r))"

text \<open>An arithmetic extraction \<^verbatim>\<open>iss >> x\<close>: the sentry, then the \<^verbatim>\<open>num_get\<close> facet.\<close>

definition extract_num ::
  "(string \<Rightarrow> 'a \<times> bool \<times> string) \<Rightarrow> istringstream \<Rightarrow> 'a \<Rightarrow> istringstream \<times> 'a" where
  "extract_num num_get s v =
     (case sentry s of
        (False, s') \<Rightarrow> (s', v)
      | (True, s') \<Rightarrow>
          (case num_get (buf s') of
             (x, f, r) \<Rightarrow> (s'\<lparr>buf := r, eofbit := (r = []), failbit := f\<rparr>, x)))"

definition get_u32 :: "istringstream \<Rightarrow> 32 word \<Rightarrow> istringstream \<times> 32 word" where
  "get_u32 = extract_num num_get_unsigned"

definition get_bool :: "istringstream \<Rightarrow> bool \<Rightarrow> istringstream \<times> bool" where
  "get_bool = extract_num num_get_bool"

definition get_double :: "'d platform \<Rightarrow> istringstream \<Rightarrow> 'd \<Rightarrow> istringstream \<times> 'd" where
  "get_double pf = extract_num (num_get_double pf)"

text \<open>
  \<^verbatim>\<open>std::getline(iss, str)\<close>: the bytes up to the next newline, which is consumed; it
  fails when it extracts nothing.
\<close>

definition getline :: "istringstream \<Rightarrow> string \<Rightarrow> istringstream \<times> string" where
  "getline s v =
     (case sentry_noskipws s of
        (False, s') \<Rightarrow> (s', v)
      | (True, s') \<Rightarrow>
          (let l = takeWhile (\<lambda>c. c \<noteq> CHR 0x0A) (buf s')
           in case dropWhile (\<lambda>c. c \<noteq> CHR 0x0A) (buf s') of
                [] \<Rightarrow> (s'\<lparr>buf := [], eofbit := True, failbit := (l = [])\<rparr>, l)
              | nl # r \<Rightarrow> (s'\<lparr>buf := r\<rparr>, l)))"


section \<open>Feedback messages and their parser (utils/types.h, utils/parser.cpp)\<close>

text \<open>
  The variant \<^verbatim>\<open>FeedbackMessage\<close>. Every struct starts with its constant \<^verbatim>\<open>type\<close>
  string, which \<open>message_type\<close> gives back.
\<close>

datatype 'd FeedbackMessage =
    ParamSet "32 word" string 'd
  | AudioMonitor "32 word" 'd
  | OutputSet "32 word" string 'd
  | MidiMapped "32 word" string "32 word" "32 word"
  | MidiControlChange "32 word" "32 word" "32 word"
  | MidiProgramChange "32 word" "32 word"
  | Transport bool 'd 'd
  | PatchSet "32 word" string "'d json"
  | Log "32 word" string
  | CpuLoad 'd 'd "32 word"
  | DataFinish
  | CcMap string
  | UnknownFeedback string

fun message_type :: "'d FeedbackMessage \<Rightarrow> string" where
  "message_type (ParamSet _ _ _) = ''param_set''"
| "message_type (AudioMonitor _ _) = ''audio_monitor''"
| "message_type (OutputSet _ _ _) = ''output_set''"
| "message_type (MidiMapped _ _ _ _) = ''midi_mapped''"
| "message_type (MidiControlChange _ _ _) = ''midi_control_change''"
| "message_type (MidiProgramChange _ _) = ''midi_program_change''"
| "message_type (Transport _ _ _) = ''transport''"
| "message_type (PatchSet _ _ _) = ''patch_set''"
| "message_type (Log _ _) = ''log''"
| "message_type (CpuLoad _ _ _) = ''cpu_load''"
| "message_type DataFinish = ''data_finish''"
| "message_type (CcMap _) = ''cc_map''"
| "message_type (UnknownFeedback _) = ''unknown''"

text \<open>
  The parser declares its numeric locals without initialising them. What such a local
  holds when no extraction writes to it is not determined by the program; the model takes
  these values as an argument.
\<close>

record 'd indeterminate =
  ind_u32 :: "32 word"
  ind_f64 :: 'd
  ind_bool :: bool

text \<open>
  \<^verbatim>\<open>if (!s.empty() && s[0] == ' ') s = s.substr(1)\<close>, applied to the rest of a line.
\<close>

definition strip_leading_space :: "string \<Rightarrow> string" where
  "strip_leading_space str =
     (if str \<noteq> [] \<and> hd str = CHR '' '' then drop 1 str else str)"

text \<open>
  \<^verbatim>\<open>parse_feedback_line\<close>. The stream does not throw (its exception mask is empty), so
  the handler of the \<^verbatim>\<open>try\<close> block is reached only from the JSON reader.
\<close>

definition parse_feedback_line ::
  "'d platform \<Rightarrow> 'd indeterminate \<Rightarrow> string \<Rightarrow> 'd FeedbackMessage option" where
  "parse_feedback_line pf ind line =
     (case get_string (istringstream_new line) [] of (iss, type) \<Rightarrow>
      if type = ''param_set'' then
        (case get_u32 iss (ind_u32 ind) of (iss, effect_id) \<Rightarrow>
         case get_string iss [] of (iss, symbol) \<Rightarrow>
         case get_double pf iss (ind_f64 ind) of (iss, val) \<Rightarrow>
           Some (ParamSet effect_id symbol val))
      else if type = ''audio_monitor'' then
        (case get_u32 iss (ind_u32 ind) of (iss, index) \<Rightarrow>
         case get_double pf iss (ind_f64 ind) of (iss, val) \<Rightarrow>
           Some (AudioMonitor index val))
      else if type = ''output_set'' then
        (case get_u32 iss (ind_u32 ind) of (iss, effect_id) \<Rightarrow>
         case get_string iss [] of (iss, symbol) \<Rightarrow>
         case get_double pf iss (ind_f64 ind) of (iss, val) \<Rightarrow>
           Some (OutputSet effect_id symbol val))
      else if type = ''midi_mapped'' then
        (case get_u32 iss (ind_u32 ind) of (iss, effect_id) \<Rightarrow>
         case get_string iss [] of (iss, symbol) \<Rightarrow>
         case get_u32 iss (ind_u32 ind) of (iss, channel) \<Rightarrow>
         case get_u32 iss (ind_u32 ind) of (iss, controller) \<Rightarrow>
           Some (MidiMapped effect_id symbol channel controller))
      else if type = ''midi_control_change'' then
        (case get_u32 iss (ind_u32 ind) of (iss, channel) \<Rightarrow>
         case get_u32 iss (ind_u32 ind) of (iss, control) \<Rightarrow>
         case get_u32 iss (ind_u32 ind) of (iss, val) \<Rightarrow>
           Some (MidiControlChange channel control val))
      else if type = ''midi_program_change'' then
        (case get_u32 iss (ind_u32 ind) of (iss, program) \<Rightarrow>
         case get_u32 iss (ind_u32 ind) of (iss, channel) \<Rightarrow>
           Some (MidiProgramChange program channel))
      else if type = ''transport'' then
        (case get_bool iss (ind_bool ind) of (iss, rolling) \<Rightarrow>
         case get_double pf iss (ind_f64 ind) of (iss, bpb) \<Rightarrow>
         case get_double pf iss (ind_f64 ind) of (iss, bpm) \<Rightarrow>
           Some (Transport rolling bpb bpm))
      else if type = ''patch_set'' then
        (case get_u32 iss (ind_u32 ind) of (iss, instance) \<Rightarrow>
         case get_string iss [] of (iss, symbol) \<Rightarrow>
         case getline iss [] of (iss, remaining) \<Rightarrow>
           (case Json_Reader_parse pf (strip_leading_space remaining) of
              Parsed val \<Rightarrow> Some (PatchSet instance symbol val)
            | Rejected val \<Rightarrow> Some (PatchSet instance symbol val)
            | Raised e \<Rightarrow> Some (UnknownFeedback line)))
      else if type = ''log'' then
        (case get_u32 iss (ind_u32 ind) of (iss, level) \<Rightarrow>
         case getline iss [] of (iss, message) \<Rightarrow>
           Some (Log level (strip_leading_space message)))
      else if type = ''cpu_load'' then
        (case get_double pf iss (ind_f64 ind) of (iss, load) \<Rightarrow>
         case get_double pf iss (ind_f64 ind) of (iss, max_load) \<Rightarrow>
         case get_u32 iss (ind_u32 ind) of (iss, xruns) \<Rightarrow>
           Some (CpuLoad load max_load xruns))
      else if type = ''data_finish'' then Some DataFinish
      else if type = ''cc_map'' then
        (case getline iss [] of (iss, raw) \<Rightarrow> Some (CcMap (strip_leading_space raw)))
      else Some (UnknownFeedback line))"

text \<open>
  The feedback grammar of the spec (section 4.3): a record is a type keyword and its
  fields in the order of the table. \<open>wire_line\<close> writes a record as the spec describes
  the wire: the keyword, then the fields, white-space separated (one space here), an
  unsigned field in decimal, a boolean as 1 or 0, a double as \<open>fmt\<close> prints it, and the
  rest-of-line fields verbatim. For \<open>patch_set\<close> the third field is the JSON text.
\<close>

datatype 'd feedback_fields =
    F_param_set "32 word" string 'd
  | F_output_set "32 word" string 'd
  | F_audio_monitor "32 word" 'd
  | F_midi_mapped "32 word" string "32 word" "32 word"
  | F_midi_control_change "32 word" "32 word" "32 word"
  | F_midi_program_change "32 word" "32 word"
  | F_transport bool 'd 'd
  | F_patch_set "32 word" string string
  | F_log "32 word" string
  | F_cpu_load 'd 'd "32 word"
  | F_data_finish
  | F_cc_map string

definition wire_u32 :: "32 word \<Rightarrow> string" where
  "wire_u32 w = to_string_nat (unat w)"

definition wire_bool :: "bool \<Rightarrow> string" where
  "wire_bool b = (if b then ''1'' else ''0'')"

fun wire_line :: "('d \<Rightarrow> string) \<Rightarrow> 'd feedback_fields \<Rightarrow> string" where
  "wire_line fmt (F_param_set e smb v) =
     ''param_set'' @ CHR '' '' # wire_u32 e @ CHR '' '' # smb @ CHR '' '' # fmt v"
| "wire_line fmt (F_output_set e smb v) =
     ''output_set'' @ CHR '' '' # wire_u32 e @ CHR '' '' # smb @ CHR '' '' # fmt v"
| "wire_line fmt (F_audio_monitor i v) =
     ''audio_monitor'' @ CHR '' '' # wire_u32 i @ CHR '' '' # fmt v"
| "wire_line fmt (F_midi_mapped e smb ch ctl) =
     ''midi_mapped'' @ CHR '' '' # wire_u32 e @ CHR '' '' # smb @ CHR '' '' # wire_u32 ch
        @ CHR '' '' # wire_u32 ctl"
| "wire_line fmt (F_midi_control_change ch ctl v) =
     ''midi_control_change'' @ CHR '' '' # wire_u32 ch @ CHR '' '' # wire_u32 ctl
        @ CHR '' '' # wire_u32 v"
| "wire_line fmt (F_midi_program_change p ch) =
     ''midi_program_change'' @ CHR '' '' # wire_u32 p @ CHR '' '' # wire_u32 ch"
| "wire_line fmt (F_transport rolling bpb bpm) =
     ''transport'' @ CHR '' '' # wire_bool rolling @ CHR '' '' # fmt bpb @ CHR '' '' # fmt bpm"
| "wire_line fmt (F_patch_set i smb tx) =
     ''patch_set'' @ CHR '' '' # wire_u32 i @ CHR '' '' # smb @ CHR '' '' # tx"
| "wire_line fmt (F_log lvl msg) =
     ''log'' @ CHR '' '' # wire_u32 lvl @ CHR '' '' # msg"
| "wire_line fmt (F_cpu_load l m x) =
     ''cpu_load'' @ CHR '' '' # fmt l @ CHR '' '' # fmt m @ CHR '' '' # wire_u32 x"
| "wire_line fmt F_data_finish = ''data_finish''"
| "wire_line fmt (F_cc_map raw) = ''cc_map'' @ CHR '' '' # raw"

text \<open>
  The fields the grammar admits: a \<open>str\<close> field is one token (not empty, no white
  space), a rest-of-line field has no newline, and the JSON text of \<open>patch_set\<close> is a
  document the reader accepts.
\<close>

definition is_token :: "string \<Rightarrow> bool" where
  "is_token s = (s \<noteq> [] \<and> (\<forall>c \<in> set s. \<not> isspace c))"

definition is_rest_of_line :: "string \<Rightarrow> bool" where
  "is_rest_of_line s = (CHR 0x0A \<notin> set s)"

fun fields_ok :: "'d platform \<Rightarrow> 'd feedback_fields \<Rightarrow> bool" where
  "fields_ok pf (F_param_set e smb v) = is_token smb"
| "fields_ok pf (F_output_set e smb v) = is_token smb"
| "fields_ok pf (F_midi_mapped e smb ch ctl) = is_token smb"
| "fields_ok pf (F_patch_set i smb tx) =
     (is_token smb \<and> is_rest_of_line tx \<and> (\<exists>j. Json_Reader_parse pf tx = Parsed j))"
| "fields_ok pf (F_log lvl msg) = is_rest_of_line msg"
| "fields_ok pf (F_cc_map raw) = is_rest_of_line raw"
| "fields_ok pf _ = True"

text \<open>The event that carries the fields of a record.\<close>

fun event_of :: "'d platform \<Rightarrow> 'd feedback_fields \<Rightarrow> 'd FeedbackMessage" where
  "event_of pf (F_param_set e smb v) = ParamSet e smb v"
| "event_of pf (F_output_set e smb v) = OutputSet e smb v"
| "event_of pf (F_audio_monitor i v) = AudioMonitor i v"
| "event_of pf (F_midi_mapped e smb ch ctl) = MidiMapped e smb ch ctl"
| "event_of pf (F_midi_control_change ch ctl v) = MidiControlChange ch ctl v"
| "event_of pf (F_midi_program_change p ch) = MidiProgramChange p ch"
| "event_of pf (F_transport rolling bpb bpm) = Transport rolling bpb bpm"
| "event_of pf (F_patch_set i smb tx) =
     PatchSet i smb (case Json_Reader_parse pf tx of Parsed j \<Rightarrow> j | _ \<Rightarrow> JNull)"
| "event_of pf (F_log lvl msg) = Log lvl msg"
| "event_of pf (F_cpu_load l m x) = CpuLoad l m x"
| "event_of pf F_data_finish = DataFinish"
| "event_of pf (F_cc_map raw) = CcMap raw"

text \<open>
  What the round trip needs of the C library: reading back what \<open>fmt\<close> printed, when the
  field ends the line or a space follows, gives the double that was printed.
\<close>

definition double_codec :: "'d platform \<Rightarrow> ('d \<Rightarrow> string) \<Rightarrow> bool" where
  "double_codec pf fmt =
     (\<forall>d r. (r = [] \<or> hd r = CHR '' '') \<longrightarrow>
        fmt d \<noteq> [] \<and> \<not> isspace (hd (fmt d)) \<and> num_get_double pf (fmt d @ r) = (d, False, r))"

definition recognized_types :: "string list" where
  "recognized_types =
     [''param_set'', ''audio_monitor'', ''output_set'', ''midi_mapped'', ''midi_control_change'',
      ''midi_program_change'', ''transport'', ''patch_set'', ''log'', ''cpu_load'',
      ''data_finish'', ''cc_map'']"

text \<open>The first white-space delimited token of a line (empty when there is none).\<close>

definition leading_token :: "string \<Rightarrow> string" where
  "leading_token line = takeWhile (\<lambda>c. \<not> isspace c) (dropWhile isspace line)"

text \<open>
  A stand-in for the C library on unsigned decimal literals, with \<open>nat\<close> for the doubles
  that such literals denote (120, 4, ...): used where a concrete platform is needed. Its
  JSON reader knows the documents \<^verbatim>\<open>null\<close>, \<^verbatim>\<open>true\<close> and \<^verbatim>\<open>false\<close>.
\<close>

definition nat_platform :: "nat platform" where
  "nat_platform =
     \<lparr>num_get_double =
        (\<lambda>b. if takeWhile isdigit b = [] then (0, True, b)
              else (digits_value (takeWhile isdigit b), False, dropWhile isdigit b)),
      to_string_double = to_string_nat,
      Json_Reader_parse =
        (\<lambda>s. if s = ''null'' then Parsed JNull
              else if s = ''true'' then Parsed (JBool True)
              else if s = ''false'' then Parsed (JBool False)
              else Rejected JNull)\<rparr>"

definition ind0 :: "nat indeterminate" where
  "ind0 = \<lparr>ind_u32 = 0, ind_f64 = 0, ind_bool = False\<rparr>"

section \<open>The engine command client (\<^verbatim>\<open>send_to_modhost\<close>)\<close>

text \<open>
  One call opens a socket, connects, writes the request and reads once. What the network
  and the engine do is not part of the bridge: \<open>mh\<close> takes the engine's state and the
  bytes the bridge writes when it gets that far, and answers with the outcome of the
  exchange and the engine's next state.
\<close>

datatype net_outcome =
    SocketFailed
  | InvalidAddress
  | ConnectFailed
  | SendFailed
  | Received string
  | RecvError

type_synonym 'e modhost = "'e \<Rightarrow> string \<Rightarrow> net_outcome \<times> 'e"

text \<open>
  What the command client touches: the shared health state, the steady clock the health
  state reads, the engine, and the bytes written on each connection.
\<close>

record 'e engine_link =
  health_state :: HealthState
  steady_clock :: int
  engine :: 'e
  sent_bytes :: "string list"

text \<open>The array of the string literal \<^verbatim>\<open>"\0"\<close>: the escaped NUL and the terminator.\<close>

definition nul_literal :: string where
  "nul_literal = [NUL, NUL]"

text \<open>
  \<^verbatim>\<open>std::string payload = command + "\0"; send(sock, payload.c_str(), payload.size(), 0)\<close>:
  the bytes handed to \<^verbatim>\<open>send\<close> are the first \<^verbatim>\<open>payload.size()\<close> bytes of the
  NUL-terminated buffer of \<open>payload\<close>.
\<close>

definition modhost_payload :: "string \<Rightarrow> string" where
  "modhost_payload command = string_plus_cstr command nul_literal"

definition written_bytes :: "string \<Rightarrow> string" where
  "written_bytes command =
     take (length (modhost_payload command)) (modhost_payload command @ [NUL])"

text \<open>
  \<^verbatim>\<open>buffer[bytes_read] = '\0'; std::string response(buffer);\<close> and the removal of a
  trailing NUL. At most 4095 bytes are read.
\<close>

definition response_of :: "string \<Rightarrow> string" where
  "response_of bytes =
     (let response = string_of_cstr (take 4095 bytes @ [NUL])
      in if response \<noteq> [] \<and> last response = NUL then butlast response else response)"

text \<open>
  \<^verbatim>\<open>CommandService::send_to_modhost\<close> and \<^verbatim>\<open>PluginManager::send_to_modhost\<close>. The
  two differ only in how they resolve the host name, which is the outcome
  \<open>InvalidAddress\<close> here. \<open>Received []\<close> is a read of zero bytes: the peer closed.
\<close>

definition send_to_modhost ::
  "'e modhost \<Rightarrow> string \<Rightarrow> ('e, 'z) engine_link_scheme
     \<Rightarrow> string option \<times> ('e, 'z) engine_link_scheme" where
  "send_to_modhost mh command w =
     (case mh (engine w) (written_bytes command) of
        (SocketFailed, e) \<Rightarrow> (None, w\<lparr>engine := e\<rparr>)
      | (InvalidAddress, e) \<Rightarrow> (None, w\<lparr>engine := e\<rparr>)
      | (ConnectFailed, e) \<Rightarrow>
          (None, w\<lparr>engine := e,
                   health_state :=
                     update_command_connection False (steady_clock w) (health_state w)\<rparr>)
      | (SendFailed, e) \<Rightarrow>
          (None, w\<lparr>engine := e,
                   health_state :=
                     update_command_connection True (steady_clock w) (health_state w)\<rparr>)
      | (Received bytes, e) \<Rightarrow>
          (if bytes = [] then None else Some (response_of bytes),
           w\<lparr>engine := e,
             health_state := update_command_connection True (steady_clock w) (health_state w),
             sent_bytes := sent_bytes w @ [written_bytes command]\<rparr>)
      | (RecvError, e) \<Rightarrow>
          (None, w\<lparr>engine := e,
                   health_state :=
                     update_command_connection True (steady_clock w) (health_state w),
                   sent_bytes := sent_bytes w @ [written_bytes command]\<rparr>))"


section \<open>The command service (command_service.cpp)\<close>

datatype CommandRequest = RawCommand string | StructuredCommand string "string list"

datatype CommandResponse = CommandSuccess string string | CommandError string

fun to_json_CommandResponse :: "CommandResponse \<Rightarrow> 'd json" where
  "to_json_CommandResponse (CommandSuccess st raw) =
     JObject [(''status'', JString st), (''raw'', JString raw)]"
| "to_json_CommandResponse (CommandError err) = JObject [(''error'', JString err)]"

definition process_command ::
  "'e modhost \<Rightarrow> CommandRequest \<Rightarrow> ('e, 'z) engine_link_scheme
     \<Rightarrow> 'd json \<times> ('e, 'z) engine_link_scheme" where
  "process_command mh request w =
     (let command =
            (case request of
               RawCommand c \<Rightarrow> c
             | StructuredCommand name args \<Rightarrow> foldl (\<lambda>cmd arg. cmd @ '' '' @ arg) name args)
      in case send_to_modhost mh command w of
           (Some result, w') \<Rightarrow> (to_json_CommandResponse (CommandSuccess result result), w')
         | (None, w') \<Rightarrow>
             (to_json_CommandResponse (CommandError ''Failed to communicate with mod-host''), w'))"

text \<open>Sequencing of calls that may throw: the first exception ends the block.\<close>

definition and_then :: "exception + 'a \<Rightarrow> ('a \<Rightarrow> exception + 'b) \<Rightarrow> exception + 'b" where
  "and_then m f = (case m of Inl e \<Rightarrow> Inl e | Inr x \<Rightarrow> f x)"

fun collect_strings :: "'d platform \<Rightarrow> 'd json list \<Rightarrow> exception + string list" where
  "collect_strings pf [] = Inr []"
| "collect_strings pf (x # xs) =
     and_then (asString pf x) (\<lambda>s. and_then (collect_strings pf xs) (\<lambda>ss. Inr (s # ss)))"

text \<open>
  \<^verbatim>\<open>json_req.isMember("action") && json_req["action"].asString() == "plugin"\<close>.
\<close>

definition is_plugin_request :: "'d platform \<Rightarrow> 'd json \<Rightarrow> exception + bool" where
  "is_plugin_request pf json_req =
     and_then (isMember ''action'' json_req) (\<lambda>has_action.
       if has_action
       then and_then (json_member ''action'' json_req) (\<lambda>a.
            and_then (asString pf a) (\<lambda>s. Inr (s = ''plugin'')))
       else Inr False)"

text \<open>The legacy branch up to the call of \<^verbatim>\<open>process_command\<close>: building \<^verbatim>\<open>cmd_req\<close>.\<close>

definition parse_command_request :: "'d platform \<Rightarrow> 'd json \<Rightarrow> exception + CommandRequest" where
  "parse_command_request pf json_req =
     and_then (isMember ''command'' json_req) (\<lambda>has_command.
       if has_command
       then and_then (json_member ''command'' json_req) (\<lambda>c.
            and_then (asString pf c) (\<lambda>s. Inr (RawCommand s)))
       else and_then (isMember ''name'' json_req) (\<lambda>has_name.
            and_then (if has_name then isMember ''args'' json_req else Inr False) (\<lambda>has_args.
              if has_args
              then and_then (json_member ''args'' json_req) (\<lambda>args_array.
                   and_then (collect_strings pf (json_elements args_array)) (\<lambda>args.
                   and_then (json_member ''name'' json_req) (\<lambda>n.
                   and_then (asString pf n) (\<lambda>name. Inr (StructuredCommand name args)))))
              else Inl (runtime_error ''Invalid command format''))))"

definition invalid_request_reply :: "'d json" where
  "invalid_request_reply = JObject [(''error'', JString ''Invalid request format'')]"

text \<open>
  One request of \<^verbatim>\<open>service_loop\<close>, from the reader's result to the value that is
  written to the socket. \<^verbatim>\<open>Json::Value json_resp;\<close> is declared null before the
  branch. The plugin branch assigns to it. The legacy branch declares a second
  \<^verbatim>\<open>json_resp\<close> inside its block and initialises that one from \<^verbatim>\<open>process_command\<close>;
  the block ends, and the value sent is the outer one. The plugin path is the argument
  \<open>process_plugin_command\<close>; it catches its own exceptions.
\<close>

definition dispatch_request ::
  "'d platform \<Rightarrow> 'e modhost
     \<Rightarrow> ('d json \<Rightarrow> ('e, 'z) engine_link_scheme \<Rightarrow> 'd json \<times> ('e, 'z) engine_link_scheme)
     \<Rightarrow> 'd reader_result \<Rightarrow> ('e, 'z) engine_link_scheme
     \<Rightarrow> 'd json \<times> ('e, 'z) engine_link_scheme" where
  "dispatch_request pf mh process_plugin_command parsed w =
     (case parsed of
        Parsed json_req \<Rightarrow>
          (let json_resp = JNull
           in case is_plugin_request pf json_req of
                Inl e \<Rightarrow> (invalid_request_reply, w)
              | Inr True \<Rightarrow> process_plugin_command json_req w
              | Inr False \<Rightarrow>
                  (case parse_command_request pf json_req of
                     Inl e \<Rightarrow> (invalid_request_reply, w)
                   | Inr cmd_req \<Rightarrow>
                       (case process_command mh cmd_req w of
                          (inner_json_resp :: 'd json, w') \<Rightarrow> (json_resp, w'))))
      | Rejected v \<Rightarrow> (invalid_request_reply, w)
      | Raised e \<Rightarrow> (invalid_request_reply, w))"

definition service_request ::
  "'d platform \<Rightarrow> 'e modhost
     \<Rightarrow> ('d json \<Rightarrow> ('e, 'z) engine_link_scheme \<Rightarrow> 'd json \<times> ('e, 'z) engine_link_scheme)
     \<Rightarrow> string \<Rightarrow> ('e, 'z) engine_link_scheme
     \<Rightarrow> 'd json \<times> ('e, 'z) engine_link_scheme" where
  "service_request pf mh process_plugin_command json_str w =
     dispatch_request pf mh process_plugin_command (Json_Reader_parse pf json_str) w"

text \<open>
  The legacy request shapes of the spec: a body with \<open>command\<close>, or with \<open>name\<close> and
  \<open>args\<close>, and no \<open>action\<close>.
\<close>

definition legacy_request :: "'d json \<Rightarrow> bool" where
  "legacy_request json_req =
     (case json_req of
        JObject ms \<Rightarrow>
          ''action'' \<notin> set (map fst ms)
          \<and> (''command'' \<in> set (map fst ms)
               \<or> (''name'' \<in> set (map fst ms) \<and> ''args'' \<in> set (map fst ms)))
      | _ \<Rightarrow> False)"

section \<open>Plugin data (utils/types.h)\<close>

text \<open>
  The structs of the catalog and of the loaded instances. A \<^verbatim>\<open>std::unordered_map\<close> is
  an association list: a key occurs once, and the order of the list is the order in which
  the map is iterated.
\<close>

record PluginAuthor =
  author_name :: string
  author_homepage :: string
  author_email :: string

record 'd PluginScalePoint =
  sp_value :: 'd
  sp_label :: string

record PluginUnits =
  units_label :: string
  units_symbol :: string

record 'd PluginPort =
  port_index :: "32 word"
  port_name :: string
  port_symbol :: string
  port_short_name :: string
  port_comment :: string
  port_designation :: string
  min_value :: 'd
  max_value :: 'd
  default_value :: 'd
  units :: PluginUnits
  properties :: "string list"
  scale_points :: "'d PluginScalePoint list"

record 'd PluginPorts =
  audio_inputs :: "'d PluginPort list"
  audio_outputs :: "'d PluginPort list"
  control_inputs :: "'d PluginPort list"
  control_outputs :: "'d PluginPort list"
  cv_inputs :: "'d PluginPort list"
  cv_outputs :: "'d PluginPort list"
  midi_inputs :: "'d PluginPort list"
  midi_outputs :: "'d PluginPort list"

record PluginPreset =
  preset_uri :: string
  preset_label :: string
  preset_path :: string

record ValidationResult =
  is_valid :: bool
  error_message :: string

record PluginSearchCriteria =
  crit_category :: string
  crit_author :: string
  min_audio_inputs :: int
  min_audio_outputs :: int
  max_audio_inputs :: int
  max_audio_outputs :: int
  requires_realtime :: bool
  has_parameter :: string
  required_features :: "string list"

text \<open>The default member initialisers of \<^verbatim>\<open>PluginSearchCriteria\<close>.\<close>

definition PluginSearchCriteria_new :: PluginSearchCriteria where
  "PluginSearchCriteria_new =
     \<lparr>crit_category = [], crit_author = [], min_audio_inputs = - 1, min_audio_outputs = - 1,
      max_audio_inputs = - 1, max_audio_outputs = - 1, requires_realtime = False,
      has_parameter = [], required_features = []\<rparr>"

record 'd PluginInfo =
  info_uri :: string
  info_name :: string
  info_brand :: string
  info_label :: string
  info_comment :: string
  build_environment :: string
  info_version :: string
  license :: string
  category :: "string list"
  author :: PluginAuthor
  info_ports :: "'d PluginPorts"
  presets :: "PluginPreset list"

text \<open>
  \<^verbatim>\<open>PluginInstance\<close>, with the member \<^verbatim>\<open>host_instance\<close> that plugin_manager.cpp and
  types.cpp use (an optional integer).
\<close>

record 'd PluginInstance =
  inst_uri :: string
  instance_id :: string
  inst_name :: string
  inst_brand :: string
  inst_version :: string
  parameters :: "(string \<times> 'd) list"
  inst_ports :: "'d PluginPorts"
  inst_x :: 'd
  inst_y :: 'd
  enabled :: bool
  preset :: string
  created_at :: int
  host_instance :: "int option"

record 'd LoadPluginRequest =
  lp_uri :: string
  lp_x :: 'd
  lp_y :: 'd
  lp_parameters :: "(string \<times> 'd) list"

record 'd SetParameterRequest =
  sp_instance_id :: string
  sp_parameter :: string
  sp_req_value :: 'd

record SearchPluginsRequest =
  query :: string
  criteria :: "PluginSearchCriteria option"

text \<open>The responses of the operations modelled here.\<close>

datatype 'd PluginResponse =
    LoadPluginResponse string "'d PluginInstance"
  | SetParameterResponse string 'd
  | SearchPluginsResponse "'d PluginInfo list"
  | RescanPluginsResponse string int int


section \<open>The validator (plugins/plugin_validator.cpp)\<close>

text \<open>
  Each check returns its verdict and the messages it appends to \<^verbatim>\<open>validation_errors_\<close>.
  The comparison of two doubles is the order of \<open>'d\<close>. Lines that only log are left out.
\<close>

definition isKnownIncompatible :: "string \<Rightarrow> bool" where
  "isKnownIncompatible uri = (uri \<in> set [])"

definition checkLv2Features :: "'d PluginInfo \<Rightarrow> bool" where
  "checkLv2Features plugin = True"

definition checkAudioPorts :: "'d PluginInfo \<Rightarrow> bool \<times> string list" where
  "checkAudioPorts plugin =
     (let max_audio_ports = 8;
          n_in = static_cast_int (length (audio_inputs (info_ports plugin)));
          n_out = static_cast_int (length (audio_outputs (info_ports plugin)));
          e1 = (if max_audio_ports < n_in
                then [''Too many audio inputs: '' @ to_string_int n_in @ '' (max: ''
                        @ to_string_int max_audio_ports @ '')'']
                else []);
          e2 = (if max_audio_ports < n_out
                then [''Too many audio outputs: '' @ to_string_int n_out @ '' (max: ''
                        @ to_string_int max_audio_ports @ '')'']
                else []);
          e3 = (if n_in = 0 \<and> n_out = 0 then [''Plugin has no audio ports''] else [])
      in (e1 @ e2 @ e3 = [], e1 @ e2 @ e3))"

definition range_errors :: "('d::ord) PluginPort list \<Rightarrow> string list" where
  "range_errors ps =
     concat (map (\<lambda>param. if max_value param < min_value param
                          then [''Invalid parameter range for '' @ [CHR 0x27] @ port_name param
                                  @ [CHR 0x27] @ '': min > max'']
                          else []) ps)"

definition checkControlPorts :: "('d::ord) PluginInfo \<Rightarrow> bool \<times> string list" where
  "checkControlPorts plugin =
     (let es = range_errors (control_inputs (info_ports plugin))
               @ range_errors (control_outputs (info_ports plugin))
      in (es = [], es))"

definition validatePlugin :: "('d::ord) PluginInfo \<Rightarrow> ValidationResult" where
  "validatePlugin plugin =
     (if isKnownIncompatible (info_uri plugin)
      then \<lparr>is_valid = False,
            error_message = ''Plugin is known to be incompatible with mod-host''\<rparr>
      else let ok1 = checkLv2Features plugin;
               (ok2, es2) = checkAudioPorts plugin;
               (ok3, es3) = checkControlPorts plugin
           in if ok1 \<and> ok2 \<and> ok3 then \<lparr>is_valid = True, error_message = []\<rparr>
              else \<lparr>is_valid = False,
                    error_message = ''Multiple validation errors: ''
                      @ to_string_nat (length (es2 @ es3)) @ '' issues found''\<rparr>)"


section \<open>The search engine (plugins/plugin_search_engine.cpp)\<close>

definition toLower :: "string \<Rightarrow> string" where
  "toLower str = map tolower str"

definition matchesQuery :: "'d PluginInfo \<Rightarrow> string \<Rightarrow> bool" where
  "matchesQuery plugin q =
     (string_find
        (toLower (info_name plugin @ '' '' @ author_name (author plugin) @ '' ''
                  @ info_comment plugin @ '' '' @ info_uri plugin)) q \<noteq> None)"

definition matchesCriteria :: "'d PluginInfo \<Rightarrow> PluginSearchCriteria \<Rightarrow> bool" where
  "matchesCriteria plugin crit =
     (if crit_category crit \<noteq> []
         \<and> \<not> list_ex (\<lambda>cat. string_find (toLower cat) (toLower (crit_category crit)) \<noteq> None)
                (category plugin)
      then False
      else if crit_author crit \<noteq> []
         \<and> string_find (toLower (author_name (author plugin))) (toLower (crit_author crit)) = None
      then False
      else if 0 < min_audio_inputs crit
         \<and> static_cast_int (length (audio_inputs (info_ports plugin))) < min_audio_inputs crit
      then False
      else if 0 < min_audio_outputs crit
         \<and> static_cast_int (length (audio_outputs (info_ports plugin))) < min_audio_outputs crit
      then False
      else if 0 \<le> max_audio_inputs crit
         \<and> max_audio_inputs crit < static_cast_int (length (audio_inputs (info_ports plugin)))
      then False
      else if 0 \<le> max_audio_outputs crit
         \<and> max_audio_outputs crit < static_cast_int (length (audio_outputs (info_ports plugin)))
      then False
      else True)"

definition searchByText ::
  "string \<Rightarrow> (string \<times> 'd PluginInfo) list \<Rightarrow> 'd PluginInfo list" where
  "searchByText q plugins =
     (if q = [] then map snd plugins
      else map snd (filter (\<lambda>pair. matchesQuery (snd pair) (toLower q)) plugins))"

definition filterPlugins ::
  "PluginSearchCriteria \<Rightarrow> (string \<times> 'd PluginInfo) list \<Rightarrow> 'd PluginInfo list" where
  "filterPlugins crit plugins =
     map snd (filter (\<lambda>pair. matchesCriteria (snd pair) crit) plugins)"

text \<open>
  \<^verbatim>\<open>hasParameter\<close>: the helper of the search engine that looks a parameter up in the
  control ports. \<open>matchesCriteria\<close> does not call it.
\<close>

definition hasParameter :: "'d PluginInfo \<Rightarrow> string \<Rightarrow> bool" where
  "hasParameter plugin param_name =
     (let lower_param = toLower param_name;
          hit = (\<lambda>param. string_find (toLower (port_name param)) lower_param \<noteq> None
                        \<or> string_find (toLower (port_symbol param)) lower_param \<noteq> None)
      in list_ex hit (control_inputs (info_ports plugin))
         \<or> list_ex hit (control_outputs (info_ports plugin)))"

text \<open>
  The filter the spec describes for a criteria object, in its words: every set field
  must hold, the text fields by case-insensitive substring (category, author, and the
  symbol of a required parameter), the audio port counts within the bounds that are set.
  A text field is set when it is not empty, a bound when it is not negative.
\<close>

definition contains_ci :: "string \<Rightarrow> string \<Rightarrow> bool" where
  "contains_ci needle hay = sublist (toLower needle) (toLower hay)"

definition criteria_claimed :: "PluginSearchCriteria \<Rightarrow> 'd PluginInfo \<Rightarrow> bool" where
  "criteria_claimed crit plugin =
     ((crit_category crit = [] \<or> (\<exists>cat \<in> set (category plugin). contains_ci (crit_category crit) cat))
      \<and> (crit_author crit = [] \<or> contains_ci (crit_author crit) (author_name (author plugin)))
      \<and> (has_parameter crit = []
           \<or> (\<exists>p \<in> set (control_inputs (info_ports plugin) @ control_outputs (info_ports plugin)).
                 contains_ci (has_parameter crit) (port_symbol p)))
      \<and> (min_audio_inputs crit < 0
           \<or> min_audio_inputs crit \<le> int (length (audio_inputs (info_ports plugin))))
      \<and> (min_audio_outputs crit < 0
           \<or> min_audio_outputs crit \<le> int (length (audio_outputs (info_ports plugin))))
      \<and> (max_audio_inputs crit < 0
           \<or> int (length (audio_inputs (info_ports plugin))) \<le> max_audio_inputs crit)
      \<and> (max_audio_outputs crit < 0
           \<or> int (length (audio_outputs (info_ports plugin))) \<le> max_audio_outputs crit))"

text \<open>The same filter without the required parameter: what the search engine applies.\<close>

definition criteria_applied :: "PluginSearchCriteria \<Rightarrow> 'd PluginInfo \<Rightarrow> bool" where
  "criteria_applied crit plugin =
     ((crit_category crit = [] \<or> (\<exists>cat \<in> set (category plugin). contains_ci (crit_category crit) cat))
      \<and> (crit_author crit = [] \<or> contains_ci (crit_author crit) (author_name (author plugin)))
      \<and> (min_audio_inputs crit < 0
           \<or> min_audio_inputs crit \<le> int (length (audio_inputs (info_ports plugin))))
      \<and> (min_audio_outputs crit < 0
           \<or> min_audio_outputs crit \<le> int (length (audio_outputs (info_ports plugin))))
      \<and> (max_audio_inputs crit < 0
           \<or> int (length (audio_inputs (info_ports plugin))) \<le> max_audio_inputs crit)
      \<and> (max_audio_outputs crit < 0
           \<or> int (length (audio_outputs (info_ports plugin))) \<le> max_audio_outputs crit))"

section \<open>The plugin manager (plugins/plugin_manager.cpp)\<close>

text \<open>
  The discovery adapter as the manager sees it: \<^verbatim>\<open>scan_plugins\<close> throws or returns
  the map of found plugins, \<^verbatim>\<open>get_plugin_info\<close> throws, returns a null pointer or
  returns the detailed record.
\<close>

record 'd PluginScanner =
  scan_plugins :: "exception + (string \<times> 'd PluginInfo) list"
  get_plugin_info :: "string \<Rightarrow> exception + 'd PluginInfo option"

text \<open>
  The state of the manager and of what it shares: the command link, the wall clock, the
  random generator behind \<^verbatim>\<open>generate_instance_id\<close> (the draws it will return and how
  many were taken), the PUB socket (absent, or the messages handed to it so far), the
  scanner, whether validator and search engine exist, the two maps and the static
  instance counter. The feedback reader publishes on the same PUB socket.
\<close>

record ('d, 'e) PluginManager = "'e engine_link" +
  system_clock :: int
  random_source :: "nat \<Rightarrow> nat"
  random_taken :: nat
  pub_socket :: "'d json list option"
  plugin_scanner :: "'d PluginScanner option"
  plugin_validator :: bool
  search_engine :: bool
  available_plugins :: "(string \<times> 'd PluginInfo) list"
  instances :: "(string \<times> 'd PluginInstance) list"
  next_instance :: int

definition publish_event ::
  "string \<Rightarrow> 'd json \<Rightarrow> ('d, 'e) PluginManager \<Rightarrow> ('d, 'e) PluginManager" where
  "publish_event event_type payload w =
     (case pub_socket w of
        None \<Rightarrow> w
      | Some sent \<Rightarrow>
          w\<lparr>pub_socket :=
               Some (sent @ [JObject [(''type'', JString event_type),
                                      (''timestamp'', JInt (system_clock w)),
                                      (''data'', payload)]])\<rparr>)"

definition hex_digit :: "nat \<Rightarrow> char" where
  "hex_digit n = (if n < 10 then char_of (48 + n) else char_of (87 + n))"

definition generate_instance_id ::
  "('d, 'e) PluginManager \<Rightarrow> string \<times> ('d, 'e) PluginManager" where
  "generate_instance_id w =
     (''plugin_'' @ to_string_nat (length (instances w)) @ ''_''
        @ map (\<lambda>i. hex_digit (random_source w (random_taken w + i) mod 16)) [0..<8],
      w\<lparr>random_taken := random_taken w + 8\<rparr>)"

definition get_next_numeric_instance ::
  "('d, 'e) PluginManager \<Rightarrow> int \<times> ('d, 'e) PluginManager" where
  "get_next_numeric_instance w = (next_instance w, w\<lparr>next_instance := next_instance w + 1\<rparr>)"

text \<open>
  The block of \<^verbatim>\<open>process_load_plugin\<close> that reads the engine's answer to \<^verbatim>\<open>add\<close>:
  the text after the first \<^verbatim>\<open>"resp "\<close>, if there is one, goes to \<^verbatim>\<open>std::stoi\<close>; a
  negative number throws; whatever is thrown is caught and thrown again as one
  \<^verbatim>\<open>runtime_error\<close>.
\<close>

definition after_resp :: "string \<Rightarrow> string" where
  "after_resp resp =
     (case string_find resp ''resp '' of None \<Rightarrow> resp | Some pos \<Rightarrow> drop (pos + 5) resp)"

definition parse_returned_instance :: "string \<Rightarrow> exception + int" where
  "parse_returned_instance result =
     (case (case stoi (after_resp result) of
              Inl e \<Rightarrow> Inl e
            | Inr returned_instance \<Rightarrow>
                if returned_instance < 0
                then Inl (runtime_error (''mod-host returned error code: ''
                                          @ to_string_int returned_instance))
                else Inr returned_instance) of
        Inl e \<Rightarrow> Inl (runtime_error ''Failed to parse mod-host response'')
      | Inr returned_instance \<Rightarrow> Inr returned_instance)"

text \<open>
  The answers to \<^verbatim>\<open>add\<close> that the code refuses, as the code reads an answer:
  \<^verbatim>\<open>std::stoi\<close> reads no integer from the text after the first \<^verbatim>\<open>"resp "\<close> (from
  the whole answer when it has no \<^verbatim>\<open>"resp "\<close>), or the integer it reads is negative.
\<close>

definition reply_rejected :: "string \<Rightarrow> bool" where
  "reply_rejected reply = (case stoi (after_resp reply) of Inl e \<Rightarrow> True | Inr n \<Rightarrow> n < 0)"

text \<open>
  A malformed answer in the words of the spec and of the claim: the answer to a command is
  \<^verbatim>\<open>resp <n>\<close>, and an answer is malformed when it does not start with \<^verbatim>\<open>resp \<close>
  or no integer can be read after it.
\<close>

definition claimed_malformed :: "string \<Rightarrow> bool" where
  "claimed_malformed reply =
     (if prefix ''resp '' reply
      then (case stoi (drop 5 reply) of Inl e \<Rightarrow> True | Inr n \<Rightarrow> False)
      else True)"

text \<open>The loop that sends the initial parameters; the result of each send is dropped.\<close>

fun set_initial_parameters ::
  "'d platform \<Rightarrow> 'e modhost \<Rightarrow> string \<Rightarrow> (string \<times> 'd) list
     \<Rightarrow> ('d, 'e) PluginManager \<Rightarrow> ('d, 'e) PluginManager" where
  "set_initial_parameters pf mh inst_id [] w = w"
| "set_initial_parameters pf mh inst_id ((param, v) # rest) w =
     set_initial_parameters pf mh inst_id rest
       (snd (send_to_modhost mh
               (''param_set '' @ inst_id @ '' '' @ param @ '' '' @ to_string_double pf v) w))"

definition process_load_plugin ::
  "'d platform \<Rightarrow> 'e modhost \<Rightarrow> 'd LoadPluginRequest \<Rightarrow> ('d, 'e) PluginManager
     \<Rightarrow> (exception + 'd PluginResponse) \<times> ('d, 'e) PluginManager" where
  "process_load_plugin pf mh req w =
     (case map_of (available_plugins w) (lp_uri req) of
        None \<Rightarrow> (Inl (runtime_error (''Plugin not found: '' @ lp_uri req)), w)
      | Some plugin_info \<Rightarrow>
          (case generate_instance_id w of (inst_id, w1) \<Rightarrow>
          (case get_next_numeric_instance w1 of (numeric_instance, w2) \<Rightarrow>
          (case send_to_modhost mh
                  (''add '' @ lp_uri req @ '' '' @ to_string_int numeric_instance) w2 of
             (None, w3) \<Rightarrow> (Inl (runtime_error ''Failed to add plugin to mod-host''), w3)
           | (Some result, w3) \<Rightarrow>
               (case parse_returned_instance result of
                  Inl e \<Rightarrow> (Inl e, w3)
                | Inr returned_instance \<Rightarrow>
                    (let inst = \<lparr>inst_uri = lp_uri req, instance_id = inst_id,
                                 inst_name = info_name plugin_info,
                                 inst_brand = info_brand plugin_info,
                                 inst_version = info_version plugin_info,
                                 parameters = lp_parameters req,
                                 inst_ports = info_ports plugin_info,
                                 inst_x = lp_x req, inst_y = lp_y req, enabled = True,
                                 preset = [], created_at = system_clock w,
                                 host_instance = Some returned_instance\<rparr>;
                         w4 = set_initial_parameters pf mh inst_id (lp_parameters req) w3;
                         w5 = w4\<lparr>instances := AList.update inst_id inst (instances w4)\<rparr>;
                         w6 = publish_event ''plugin_loaded''
                                (JObject [(''instance_id'', JString inst_id),
                                          (''uri'', JString (lp_uri req)),
                                          (''name'', JString (inst_name inst))]) w5
                     in (Inr (LoadPluginResponse inst_id inst), w6)))))))"

text \<open>The command line that \<^verbatim>\<open>process_set_parameter\<close> sends.\<close>

definition param_set_command :: "'d platform \<Rightarrow> 'd SetParameterRequest \<Rightarrow> string" where
  "param_set_command pf req =
     ''param_set '' @ sp_instance_id req @ '' '' @ sp_parameter req @ '' ''
       @ to_string_double pf (sp_req_value req)"

definition process_set_parameter ::
  "'d platform \<Rightarrow> 'e modhost \<Rightarrow> 'd SetParameterRequest \<Rightarrow> ('d, 'e) PluginManager
     \<Rightarrow> (exception + 'd PluginResponse) \<times> ('d, 'e) PluginManager" where
  "process_set_parameter pf mh req w =
     (case map_of (instances w) (sp_instance_id req) of
        None \<Rightarrow>
          (Inl (runtime_error (''Plugin instance not found: '' @ sp_instance_id req)), w)
      | Some inst \<Rightarrow>
          (case send_to_modhost mh (param_set_command pf req) w of
             (None, w1) \<Rightarrow> (Inl (runtime_error ''Failed to set parameter in mod-host''), w1)
           | (Some result, w1) \<Rightarrow>
               (let w2 = w1\<lparr>instances :=
                              AList.update (sp_instance_id req)
                                (inst\<lparr>parameters :=
                                   AList.update (sp_parameter req) (sp_req_value req)
                                     (parameters inst)\<rparr>)
                                (instances w1)\<rparr>;
                    w3 = publish_event ''parameter_changed''
                           (JObject [(''instance_id'', JString (sp_instance_id req)),
                                     (''parameter'', JString (sp_parameter req)),
                                     (''value'', JReal (sp_req_value req))]) w2
                in (Inr (SetParameterResponse ''ok'' (sp_req_value req)), w3))))"

definition process_search_plugins ::
  "SearchPluginsRequest \<Rightarrow> ('d, 'e) PluginManager
     \<Rightarrow> (exception + 'd PluginResponse) \<times> ('d, 'e) PluginManager" where
  "process_search_plugins req w =
     (if \<not> search_engine w
      then (Inl (runtime_error ''Plugin search engine not initialized''), w)
      else (Inr (SearchPluginsResponse
                   (case criteria req of
                      Some crit \<Rightarrow> filterPlugins crit (available_plugins w)
                    | None \<Rightarrow>
                        if query req \<noteq> [] then searchByText (query req) (available_plugins w)
                        else map snd (available_plugins w))), w))"

text \<open>
  \<^verbatim>\<open>rescan_plugins\<close>. The three loops of the \<^verbatim>\<open>try\<close> block: fetching the detailed
  record of every scanned URI (a throw leaves the block, a null pointer skips the URI),
  validating, and then the assignment to the catalog and the event. The handler of the
  block only logs.
\<close>

fun fetch_detailed ::
  "'d PluginScanner \<Rightarrow> string list \<Rightarrow> (string \<times> 'd PluginInfo) list
     \<Rightarrow> exception + (string \<times> 'd PluginInfo) list" where
  "fetch_detailed sc [] new_plugins = Inr new_plugins"
| "fetch_detailed sc (uri # uris) new_plugins =
     (case get_plugin_info sc uri of
        Inl e \<Rightarrow> Inl e
      | Inr None \<Rightarrow> fetch_detailed sc uris new_plugins
      | Inr (Some detailed_plugin) \<Rightarrow>
          fetch_detailed sc uris (AList.update uri detailed_plugin new_plugins))"

fun validate_all ::
  "bool \<Rightarrow> (string \<times> ('d::ord) PluginInfo) list \<Rightarrow> (string \<times> 'd PluginInfo) list
     \<Rightarrow> (string \<times> 'd PluginInfo) list" where
  "validate_all validator [] validated_plugins = validated_plugins"
| "validate_all validator ((uri, plugin) # rest) validated_plugins =
     validate_all validator rest
       (if validator
        then (if is_valid (validatePlugin plugin)
              then AList.update uri plugin validated_plugins
              else validated_plugins)
        else AList.update uri plugin validated_plugins)"

definition rescan_try ::
  "('d::ord) PluginScanner \<Rightarrow> ('d, 'e) PluginManager \<Rightarrow> exception + ('d, 'e) PluginManager" where
  "rescan_try sc w =
     (case scan_plugins sc of
        Inl e \<Rightarrow> Inl e
      | Inr mini_plugins \<Rightarrow>
          (case fetch_detailed sc (map fst mini_plugins) [] of
             Inl e \<Rightarrow> Inl e
           | Inr new_plugins \<Rightarrow>
               (let validated_plugins = validate_all (plugin_validator w) new_plugins [];
                    w1 = w\<lparr>available_plugins := validated_plugins\<rparr>
                in Inr (publish_event ''plugins_rescanned''
                          (JObject [(''plugin_count'',
                                     JInt (static_cast_int (length (available_plugins w1))))])
                          w1))))"

definition rescan_plugins :: "(('d::ord), 'e) PluginManager \<Rightarrow> ('d, 'e) PluginManager" where
  "rescan_plugins w =
     (case plugin_scanner w of
        None \<Rightarrow> w
      | Some sc \<Rightarrow> (case rescan_try sc w of Inl e \<Rightarrow> w | Inr w' \<Rightarrow> w'))"

definition process_rescan_plugins ::
  "(('d::ord), 'e) PluginManager
     \<Rightarrow> (exception + 'd PluginResponse) \<times> ('d, 'e) PluginManager" where
  "process_rescan_plugins w =
     (let old_count = static_cast_int (length (available_plugins w));
          w' = rescan_plugins w;
          new_count = static_cast_int (length (available_plugins w'));
          added = new_count - old_count;
          removed = old_count - new_count
      in (Inr (RescanPluginsResponse ''ok'' added removed), w'))"

text \<open>
  The counts the spec asks of a rescan: the URIs of the new catalog that the old one
  did not have, and the URIs of the old catalog that the new one does not have.
\<close>

definition added_count :: "(string \<times> 'a) list \<Rightarrow> (string \<times> 'a) list \<Rightarrow> int" where
  "added_count old new = int (card (fst ` set new - fst ` set old))"

definition removed_count :: "(string \<times> 'a) list \<Rightarrow> (string \<times> 'a) list \<Rightarrow> int" where
  "removed_count old new = int (card (fst ` set old - fst ` set new))"


section \<open>The feedback reader (core/feedback_reader.cpp)\<close>

fun to_json_FeedbackMessage :: "'d FeedbackMessage \<Rightarrow> 'd json" where
  "to_json_FeedbackMessage (ParamSet effect_id smb v) =
     JObject [(''type'', JString ''param_set''), (''effect_id'', JInt (uint effect_id)),
              (''symbol'', JString smb), (''value'', JReal v)]"
| "to_json_FeedbackMessage (AudioMonitor idx v) =
     JObject [(''type'', JString ''audio_monitor''), (''index'', JInt (uint idx)),
              (''value'', JReal v)]"
| "to_json_FeedbackMessage (OutputSet effect_id smb v) =
     JObject [(''type'', JString ''output_set''), (''effect_id'', JInt (uint effect_id)),
              (''symbol'', JString smb), (''value'', JReal v)]"
| "to_json_FeedbackMessage (MidiMapped effect_id smb channel controller) =
     JObject [(''type'', JString ''midi_mapped''), (''effect_id'', JInt (uint effect_id)),
              (''symbol'', JString smb), (''channel'', JInt (uint channel)),
              (''controller'', JInt (uint controller))]"
| "to_json_FeedbackMessage (MidiControlChange channel control v) =
     JObject [(''type'', JString ''midi_control_change''), (''channel'', JInt (uint channel)),
              (''control'', JInt (uint control)), (''value'', JInt (uint v))]"
| "to_json_FeedbackMessage (MidiProgramChange program channel) =
     JObject [(''type'', JString ''midi_program_change''), (''program'', JInt (uint program)),
              (''channel'', JInt (uint channel))]"
| "to_json_FeedbackMessage (Transport rolling bpb bpm) =
     JObject [(''type'', JString ''transport''), (''rolling'', JBool rolling),
              (''bpb'', JReal bpb), (''bpm'', JReal bpm)]"
| "to_json_FeedbackMessage (PatchSet inst smb v) =
     JObject [(''type'', JString ''patch_set''), (''instance'', JInt (uint inst)),
              (''symbol'', JString smb), (''value'', v)]"
| "to_json_FeedbackMessage (Log level message) =
     JObject [(''type'', JString ''log''), (''level'', JInt (uint level)),
              (''message'', JString message)]"
| "to_json_FeedbackMessage (CpuLoad load max_load xruns) =
     JObject [(''type'', JString ''cpu_load''), (''load'', JReal load),
              (''max_load'', JReal max_load), (''xruns'', JInt (uint xruns))]"
| "to_json_FeedbackMessage DataFinish = JObject [(''type'', JString ''data_finish'')]"
| "to_json_FeedbackMessage (CcMap raw) =
     JObject [(''type'', JString ''cc_map''), (''raw'', JString raw)]"
| "to_json_FeedbackMessage (UnknownFeedback raw) =
     JObject [(''type'', JString ''unknown''), (''raw'', JString raw)]"

text \<open>
  The reader holds a reference to the manager's PUB socket and the shared health state,
  and nothing else of the manager. One record: parse, convert, send.
\<close>

definition publish_feedback ::
  "'d platform \<Rightarrow> 'd indeterminate \<Rightarrow> string \<Rightarrow> ('d, 'e) PluginManager
     \<Rightarrow> ('d, 'e) PluginManager" where
  "publish_feedback pf ind line w =
     (case parse_feedback_line pf ind line of
        None \<Rightarrow> w
      | Some message \<Rightarrow>
          (case pub_socket w of
             None \<Rightarrow> w
           | Some sent \<Rightarrow> w\<lparr>pub_socket := Some (sent @ [to_json_FeedbackMessage message])\<rparr>))"

text \<open>
  The loop over the bytes of one \<^verbatim>\<open>recv\<close>: a NUL ends a record, an empty record is
  skipped, any other byte is appended to \<^verbatim>\<open>line_buffer\<close>, which lives as long as the
  connection.
\<close>

fun process_received ::
  "'d platform \<Rightarrow> 'd indeterminate \<Rightarrow> string \<Rightarrow> string \<times> ('d, 'e) PluginManager
     \<Rightarrow> string \<times> ('d, 'e) PluginManager" where
  "process_received pf ind [] st = st"
| "process_received pf ind (c # cs) (line_buffer, w) =
     (if c = NUL
      then (if line_buffer \<noteq> []
            then process_received pf ind cs ([], publish_feedback pf ind line_buffer w)
            else process_received pf ind cs (line_buffer, w))
      else process_received pf ind cs (line_buffer @ [c], w))"

section \<open>Concrete inputs\<close>

text \<open>
  A small catalog, a manager and three engines, over the platform \<open>nat_platform\<close>, for
  the evaluations below. The catalog is that of the spec's search scenario.
\<close>

definition audio_port :: "nat \<Rightarrow> string \<Rightarrow> nat PluginPort" where
  "audio_port i nm =
     \<lparr>port_index = word_of_nat i, port_name = nm, port_symbol = nm, port_short_name = [],
      port_comment = [], port_designation = [], min_value = 0, max_value = 1,
      default_value = 0, units = \<lparr>units_label = [], units_symbol = []\<rparr>, properties = [],
      scale_points = []\<rparr>"

definition mono_ports :: "nat PluginPorts" where
  "mono_ports =
     \<lparr>audio_inputs = [audio_port 0 ''in''], audio_outputs = [audio_port 1 ''out''],
      control_inputs = [], control_outputs = [], cv_inputs = [], cv_outputs = [],
      midi_inputs = [], midi_outputs = []\<rparr>"

definition stereo_ports :: "nat PluginPorts" where
  "stereo_ports =
     \<lparr>audio_inputs = [audio_port 0 ''in_l'', audio_port 1 ''in_r''],
      audio_outputs = [audio_port 2 ''out_l'', audio_port 3 ''out_r''],
      control_inputs = [], control_outputs = [], cv_inputs = [], cv_outputs = [],
      midi_inputs = [], midi_outputs = []\<rparr>"

definition example_plugin :: "string \<Rightarrow> string \<Rightarrow> nat PluginPorts \<Rightarrow> nat PluginInfo" where
  "example_plugin uri cat ps =
     \<lparr>info_uri = uri, info_name = uri, info_brand = [], info_label = [], info_comment = [],
      build_environment = [], info_version = [], license = [], category = [cat],
      author = \<lparr>author_name = ''mod'', author_homepage = [], author_email = []\<rparr>,
      info_ports = ps, presets = []\<rparr>"

definition plugin_A :: "nat PluginInfo" where
  "plugin_A = example_plugin ''A'' ''Reverb'' stereo_ports"

definition plugin_B :: "nat PluginInfo" where
  "plugin_B = example_plugin ''B'' ''Delay'' mono_ports"

definition plugin_C :: "nat PluginInfo" where
  "plugin_C = example_plugin ''C'' ''Distortion'' stereo_ports"

definition example_manager ::
  "(string \<times> nat PluginInfo) list \<Rightarrow> nat PluginScanner option \<Rightarrow> (nat, unit) PluginManager" where
  "example_manager catalog sc =
     \<lparr>health_state = HealthState_new 0, steady_clock = 0, engine = (), sent_bytes = [],
      system_clock = 0, random_source = (\<lambda>i. i), random_taken = 0, pub_socket = Some [],
      plugin_scanner = sc, plugin_validator = True, search_engine = True,
      available_plugins = catalog, instances = [], next_instance = 0\<rparr>"

text \<open>
  An engine that answers \<^verbatim>\<open>resp 0\<close> to an \<^verbatim>\<open>add\<close> and cannot be reached for
  anything else; one that answers every command with \<^verbatim>\<open>resp 0\<close>; one whose answer
  has no number.
\<close>

definition engine_add_only :: "unit modhost" where
  "engine_add_only e bytes =
     (if prefix ''add '' bytes then (Received ''resp 0'', e) else (ConnectFailed, e))"

definition engine_ok :: "unit modhost" where
  "engine_ok e bytes = (Received ''resp 0'', e)"

definition engine_malformed :: "unit modhost" where
  "engine_malformed e bytes = (Received ''resp abc'', e)"

text \<open>An engine that answers every command with the bare number \<^verbatim>\<open>7\<close>.\<close>

definition engine_bare_integer :: "unit modhost" where
  "engine_bare_integer e bytes = (Received ''7'', e)"

text \<open>A scanner that finds only plugin B, one whose scan throws, one whose fetch throws.\<close>

definition scanner_B :: "nat PluginScanner" where
  "scanner_B =
     \<lparr>scan_plugins = Inr [(''B'', plugin_B)],
      get_plugin_info = (\<lambda>uri. Inr (if uri = ''B'' then Some plugin_B else None))\<rparr>"

definition scanner_scan_throws :: "nat PluginScanner" where
  "scanner_scan_throws =
     \<lparr>scan_plugins = Inl (runtime_error ''Plugin scanner not initialized''),
      get_plugin_info = (\<lambda>uri. Inr None)\<rparr>"

definition scanner_info_throws :: "nat PluginScanner" where
  "scanner_info_throws =
     \<lparr>scan_plugins = Inr [(''B'', plugin_B)],
      get_plugin_info = (\<lambda>uri. Inl (runtime_error ''Plugin scanner not initialized''))\<rparr>"

text \<open>
  A run: plugin A is loaded with the initial parameter \<open>gain = 5\<close> on the engine that
  accepts only \<^verbatim>\<open>add\<close>, so that the \<^verbatim>\<open>param_set\<close> of the initial parameter is not
  delivered; then the feedback port delivers the record \<^verbatim>\<open>param_set 0 gain 2\<close>.
\<close>

definition scenario_request :: "nat LoadPluginRequest" where
  "scenario_request = \<lparr>lp_uri = ''A'', lp_x = 10, lp_y = 20, lp_parameters = [(''gain'', 5)]\<rparr>"

definition scenario_loaded :: "(nat, unit) PluginManager" where
  "scenario_loaded =
     snd (process_load_plugin nat_platform engine_add_only scenario_request
            (example_manager [(''A'', plugin_A)] None))"

definition scenario_after_feedback :: "(nat, unit) PluginManager" where
  "scenario_after_feedback =
     snd (process_received nat_platform ind0 (''param_set 0 gain 2'' @ [NUL]) ([], scenario_loaded))"

definition scenario_instance :: "nat PluginInstance" where
  "scenario_instance =
     \<lparr>inst_uri = ''A'', instance_id = ''plugin_0_01234567'', inst_name = ''A'', inst_brand = [],
      inst_version = [], parameters = [(''gain'', 5)], inst_ports = stereo_ports,
      inst_x = 10, inst_y = 20, enabled = True, preset = [], created_at = 0,
      host_instance = Some 0\<rparr>"

definition scenario_set_gain :: "nat SetParameterRequest" where
  "scenario_set_gain =
     \<lparr>sp_instance_id = ''plugin_0_01234567'', sp_parameter = ''gain'', sp_req_value = 7\<rparr>"

section \<open>Health state: proofs\<close>

lemma update_overall_status_flags:
  "command_connected (update_overall_status now h) = command_connected h"
  "feedback_connected (update_overall_status now h) = feedback_connected h"
  by (simp_all add: update_overall_status_def Let_def)

lemma update_overall_status_table:
  "status (update_overall_status now h) =
     status_table (command_connected h) (feedback_connected h)"
  by (cases "command_connected h"; cases "feedback_connected h")
     (auto simp: update_overall_status_def Let_def)

lemma apply_health_update_table:
  "status (apply_health_update h u) =
     status_table (command_connected (apply_health_update h u))
                  (feedback_connected (apply_health_update h u))"
proof (cases u)
  case (Pair k now)
  then show ?thesis
    by (cases k)
       (simp_all add: update_command_connection_def update_feedback_connection_def
          update_overall_status_table update_overall_status_flags)
qed

lemma status_table_not_Starting: "status_table c f \<noteq> Starting"
  by (cases c; cases f) simp_all

text \<open>
  C9. After at least one update, from any state whatever (the first update included),
  the status is the table's value at the two flags of the state reached, and it is
  not \<open>Starting\<close>; the freshly constructed state is the one whose status is
  \<open>Starting\<close>.
\<close>

theorem health_status_is_table_after_first_update:
  assumes "ups \<noteq> []"
  shows "status (run_health_updates h ups) =
           status_table (command_connected (run_health_updates h ups))
                        (feedback_connected (run_health_updates h ups))
         \<and> status (run_health_updates h ups) \<noteq> Starting
         \<and> status (HealthState_new t0) = Starting"
proof -
  from assms obtain vs u where ups: "ups = vs @ [u]"
    by (cases ups rule: rev_cases) auto
  have run: "run_health_updates h ups = apply_health_update (run_health_updates h vs) u"
    by (simp add: ups run_health_updates_def)
  have tab: "status (run_health_updates h ups) =
           status_table (command_connected (run_health_updates h ups))
                        (feedback_connected (run_health_updates h ups))"
    unfolding run by (rule apply_health_update_table)
  moreover have "status (run_health_updates h ups) \<noteq> Starting"
    unfolding tab by (rule status_table_not_Starting)
  moreover have "status (HealthState_new t0) = Starting"
    by (simp add: HealthState_new_def)
  ultimately show ?thesis by blast
qed

theorem health_status_is_table_after_first_update_witness:
  "[(MarkCommand True, 5), (MarkFeedback True, 6), (MarkFeedback False, 7)] \<noteq> []
   \<and> status (run_health_updates (HealthState_new 0)
        [(MarkCommand True, 5), (MarkFeedback True, 6), (MarkFeedback False, 7)]) = Degraded
   \<and> status (run_health_updates (HealthState_new 0)
        [(MarkCommand True, 5), (MarkFeedback True, 6), (MarkFeedback False, 7)]) \<noteq> Starting"
  using health_status_is_table_after_first_update
    [of "[(MarkCommand True, 5), (MarkFeedback True, 6), (MarkFeedback False, 7)]"
        "HealthState_new 0" 0]
  by (simp add: run_health_updates_def update_command_connection_def
        update_feedback_connection_def update_overall_status_def HealthState_new_def
        duration_cast_seconds_def Let_def)

section \<open>Library functions: proofs\<close>

lemma isdigit_digit_char: "d < 10 \<Longrightarrow> isdigit (digit_char d)"
  by (simp add: isdigit_def digit_char_def)

lemma digit_value_digit_char: "d < 10 \<Longrightarrow> digit_value (digit_char d) = d"
  by (simp add: digit_value_def digit_char_def)

lemma to_string_nat_digits: "\<forall>c \<in> set (to_string_nat n). isdigit c"
  by (induction n rule: to_string_nat.induct)
     (subst to_string_nat.simps, auto simp: isdigit_digit_char)

lemma to_string_nat_nonempty: "to_string_nat n \<noteq> []"
  by (subst to_string_nat.simps) simp

lemma digits_value_snoc: "digits_value (ds @ [c]) = 10 * digits_value ds + digit_value c"
  by (simp add: digits_value_def)

lemma digits_value_to_string_nat: "digits_value (to_string_nat n) = n"
proof (induction n rule: to_string_nat.induct)
  case (1 n)
  show ?case
  proof (cases "n < 10")
    case True
    then show ?thesis
      by (subst to_string_nat.simps) (simp add: digits_value_def digit_value_digit_char)
  next
    case False
    with 1 have "digits_value (to_string_nat (n div 10)) = n div 10" by simp
    with False show ?thesis
      by (subst to_string_nat.simps) (simp add: digits_value_snoc digit_value_digit_char)
  qed
qed

lemma takeWhile_stop:
  "\<forall>c \<in> set xs. P c \<Longrightarrow> r = [] \<or> \<not> P (hd r) \<Longrightarrow> takeWhile P (xs @ r) = xs"
  by (cases r) (auto simp: takeWhile_append2)

lemma dropWhile_stop:
  "\<forall>c \<in> set xs. P c \<Longrightarrow> r = [] \<or> \<not> P (hd r) \<Longrightarrow> dropWhile P (xs @ r) = r"
  by (cases r) (auto simp: dropWhile_append2)

lemma isspace_space [simp]: "isspace (CHR '' '')"
  by (simp add: isspace_def)

lemma isdigit_not_space: "isdigit c \<Longrightarrow> \<not> isspace c"
  by (auto simp: isdigit_def isspace_def)

lemma isdigit_not_sign: "isdigit c \<Longrightarrow> c \<noteq> CHR ''-'' \<and> c \<noteq> CHR ''+''"
  by (auto simp: isdigit_def)

lemma not_isdigit_space [simp]: "\<not> isdigit (CHR '' '')"
  by (simp add: isdigit_def)

section \<open>Feedback parser: proofs\<close>

lemma get_string_first:
  assumes "is_token tok" and "r = [] \<or> hd r = CHR '' ''"
  shows "get_string (istringstream_new (tok @ r)) v =
           (\<lparr>buf = r, eofbit = (r = []), failbit = False\<rparr>, tok)"
proof -
  from assms(1) obtain c cs where tok: "tok = c # cs" and c: "\<not> isspace c"
    by (cases tok) (auto simp: is_token_def)
  have all: "\<forall>c \<in> set tok. (\<lambda>c. \<not> isspace c) c" using assms(1) by (simp add: is_token_def)
  have stop: "r = [] \<or> \<not> (\<lambda>c. \<not> isspace c) (hd r)" using assms(2) by auto
  have d: "dropWhile isspace (tok @ r) = tok @ r" using c by (simp add: tok)
  have t: "takeWhile (\<lambda>c. \<not> isspace c) (tok @ r) = tok" by (rule takeWhile_stop [OF all stop])
  have e: "dropWhile (\<lambda>c. \<not> isspace c) (tok @ r) = r" by (rule dropWhile_stop [OF all stop])
  have ne: "tok @ r \<noteq> []" by (simp add: tok)
  show ?thesis
    unfolding get_string_def sentry_def istringstream_new_def
    using ne by (simp add: d t e Let_def del: dropWhile_eq_Nil_conv)
qed

lemma get_string_next:
  assumes "is_token tok" and "r = [] \<or> hd r = CHR '' ''"
  shows "get_string \<lparr>buf = CHR '' '' # tok @ r, eofbit = False, failbit = False\<rparr> v =
           (\<lparr>buf = r, eofbit = (r = []), failbit = False\<rparr>, tok)"
proof -
  have "get_string \<lparr>buf = CHR '' '' # tok @ r, eofbit = False, failbit = False\<rparr> v =
        get_string (istringstream_new (tok @ r)) v"
    using assms(1)
    by (cases tok) (auto simp: get_string_def sentry_def istringstream_new_def is_token_def Let_def)
  then show ?thesis using get_string_first [OF assms] by simp
qed

lemma extract_num_next:
  assumes "tx \<noteq> []" and "\<not> isspace (hd tx)" and "num_get (tx @ r) = (x, False, r)"
  shows "extract_num num_get \<lparr>buf = CHR '' '' # tx @ r, eofbit = False, failbit = False\<rparr> v =
           (\<lparr>buf = r, eofbit = (r = []), failbit = False\<rparr>, x)"
proof -
  from assms(1,2) obtain c cs where tx_eq: "tx = c # cs" and c: "\<not> isspace c"
    by (cases tx) auto
  have d: "dropWhile isspace (CHR '' '' # tx @ r) = tx @ r" using c by (simp add: tx_eq)
  have ne: "tx @ r \<noteq> []" by (simp add: tx_eq)
  show ?thesis
    unfolding extract_num_def sentry_def using ne assms(3)
    by (simp add: d Let_def del: dropWhile.simps)
qed

lemma num_get_unsigned_wire:
  assumes "r = [] \<or> hd r = CHR '' ''"
  shows "num_get_unsigned (wire_u32 w @ r) = (w, False, r)"
proof -
  let ?ds = "to_string_nat (unat w)"
  obtain c cs where ds: "?ds = c # cs" using to_string_nat_nonempty [of "unat w"] by (cases ?ds) auto
  have dig: "\<forall>c \<in> set ?ds. isdigit c" by (rule to_string_nat_digits)
  then have c: "isdigit c" by (simp add: ds)
  have stop: "r = [] \<or> \<not> isdigit (hd r)" using assms by auto
  have s: "strip_sign (?ds @ r) = ?ds @ r" and n: "\<not> is_negative (?ds @ r)"
    using isdigit_not_sign [OF c] by (simp_all add: ds strip_sign_def is_negative_def)
  have t: "takeWhile isdigit (?ds @ r) = ?ds" by (rule takeWhile_stop [OF dig stop])
  have e: "dropWhile isdigit (?ds @ r) = r" by (rule dropWhile_stop [OF dig stop])
  have v: "digits_value ?ds = unat w" by (rule digits_value_to_string_nat)
  have le: "unat w \<le> 4294967295" using unsigned_less [of w, where 'a = nat] by simp
  show ?thesis
    unfolding num_get_unsigned_def wire_u32_def s t e using n le
    by (simp add: Let_def to_string_nat_nonempty v)
qed

lemma wire_u32_head: "wire_u32 w \<noteq> [] \<and> \<not> isspace (hd (wire_u32 w))"
proof -
  obtain c cs where ds: "to_string_nat (unat w) = c # cs"
    using to_string_nat_nonempty [of "unat w"] by (cases "to_string_nat (unat w)") auto
  have "isdigit c" using to_string_nat_digits [of "unat w"] by (simp add: ds)
  then show ?thesis by (simp add: wire_u32_def ds isdigit_not_space)
qed

lemma get_u32_next:
  assumes "r = [] \<or> hd r = CHR '' ''"
  shows "get_u32 \<lparr>buf = CHR '' '' # wire_u32 w @ r, eofbit = False, failbit = False\<rparr> v =
           (\<lparr>buf = r, eofbit = (r = []), failbit = False\<rparr>, w)"
  unfolding get_u32_def
  using wire_u32_head [of w] num_get_unsigned_wire [OF assms, of w]
  by (intro extract_num_next) simp_all

lemma get_u32_last:
  "get_u32 \<lparr>buf = CHR '' '' # wire_u32 w, eofbit = False, failbit = False\<rparr> v =
           (\<lparr>buf = [], eofbit = True, failbit = False\<rparr>, w)"
  using get_u32_next [of "[]" w v] by simp

lemma get_bool_next:
  assumes "r = [] \<or> hd r = CHR '' ''"
  shows "get_bool \<lparr>buf = CHR '' '' # wire_bool b @ r, eofbit = False, failbit = False\<rparr> v =
           (\<lparr>buf = r, eofbit = (r = []), failbit = False\<rparr>, b)"
proof -
  have "num_get_bool (wire_bool b @ r) = (b, False, r)"
    using assms
    by (cases r)
       (auto simp: num_get_bool_def wire_bool_def strip_sign_def is_negative_def isdigit_def
          digits_value_def digit_value_def Let_def)
  then show ?thesis
    unfolding get_bool_def
    by (intro extract_num_next) (simp_all add: wire_bool_def isspace_def)
qed

lemma get_double_next:
  assumes "double_codec pf fmt" and "r = [] \<or> hd r = CHR '' ''"
  shows "get_double pf \<lparr>buf = CHR '' '' # fmt d @ r, eofbit = False, failbit = False\<rparr> v =
           (\<lparr>buf = r, eofbit = (r = []), failbit = False\<rparr>, d)"
proof -
  from assms have "fmt d \<noteq> []" and "\<not> isspace (hd (fmt d))"
    and "num_get_double pf (fmt d @ r) = (d, False, r)"
    unfolding double_codec_def by blast+
  then show ?thesis
    unfolding get_double_def by (rule extract_num_next)
qed

lemma get_double_last:
  assumes "double_codec pf fmt"
  shows "get_double pf \<lparr>buf = CHR '' '' # fmt d, eofbit = False, failbit = False\<rparr> v =
           (\<lparr>buf = [], eofbit = True, failbit = False\<rparr>, d)"
  using get_double_next [OF assms, of "[]" d v] by simp

lemma getline_rest:
  assumes "is_rest_of_line tx"
  shows "getline \<lparr>buf = CHR '' '' # tx, eofbit = False, failbit = False\<rparr> v =
           (\<lparr>buf = [], eofbit = True, failbit = False\<rparr>, CHR '' '' # tx)"
proof -
  have all: "\<forall>c \<in> set (CHR '' '' # tx). c \<noteq> CHR 0x0A"
    using assms by (auto simp: is_rest_of_line_def)
  have t: "takeWhile (\<lambda>c. c \<noteq> CHR 0x0A) (CHR '' '' # tx) = CHR '' '' # tx"
    using all by (subst takeWhile_eq_all_conv) blast
  have e: "dropWhile (\<lambda>c. c \<noteq> CHR 0x0A) (CHR '' '' # tx) = []"
    using all by (subst dropWhile_eq_Nil_conv) blast
  show ?thesis
    unfolding getline_def sentry_noskipws_def
    by (simp add: t e Let_def del: takeWhile.simps dropWhile.simps)
qed

lemma strip_leading_space_Cons [simp]: "strip_leading_space (CHR '' '' # tx) = tx"
  by (simp add: strip_leading_space_def)

lemma leading_token_get_string:
  "snd (get_string (istringstream_new line) []) = leading_token line"
proof (cases "dropWhile isspace line = []")
  case True
  then show ?thesis
    by (simp add: get_string_def sentry_def istringstream_new_def leading_token_def Let_def
          del: dropWhile_eq_Nil_conv)
next
  case False
  then show ?thesis
    by (simp add: get_string_def sentry_def istringstream_new_def leading_token_def Let_def
          del: dropWhile_eq_Nil_conv)
qed


lemma tok_simps:
  "is_token ''param_set''" "is_token ''audio_monitor''" "is_token ''output_set''"
  "is_token ''midi_mapped''" "is_token ''midi_control_change''" "is_token ''midi_program_change''"
  "is_token ''transport''" "is_token ''patch_set''" "is_token ''log''" "is_token ''cpu_load''"
  "is_token ''data_finish''" "is_token ''cc_map''"
  by (simp_all add: is_token_def isspace_def)

lemma get_string_first_end:
  "is_token tok \<Longrightarrow> get_string (istringstream_new tok) v =
           (\<lparr>buf = [], eofbit = True, failbit = False\<rparr>, tok)"
  using get_string_first [of tok "[]" v] by simp

lemma parse_wire_line:
  assumes "double_codec pf fmt" and "fields_ok pf t"
  shows "parse_feedback_line pf ind (wire_line fmt t) = Some (event_of pf t)"
  using assms
  by (cases t)
     (simp_all add: parse_feedback_line_def get_string_first get_string_first_end tok_simps
          get_u32_next get_u32_last get_string_next get_double_next get_double_last
          get_bool_next getline_rest
          del: append.simps, auto)

lemma parse_unknown:
  assumes "leading_token line \<notin> set recognized_types"
  shows "parse_feedback_line pf ind line = Some (UnknownFeedback line)"
proof -
  obtain iss where g: "get_string (istringstream_new line) [] = (iss, leading_token line)"
    using leading_token_get_string [of line]
    by (cases "get_string (istringstream_new line) []") auto
  show ?thesis
    using assms unfolding parse_feedback_line_def g
    by (simp add: recognized_types_def)
qed

lemma nat_platform_codec: "double_codec nat_platform to_string_nat"
proof -
  have "to_string_nat d \<noteq> [] \<and> \<not> isspace (hd (to_string_nat d))
        \<and> num_get_double nat_platform (to_string_nat d @ r) = (d, False, r)"
    if r: "r = [] \<or> hd r = CHR '' ''" for d r
  proof -
    let ?ds = "to_string_nat d"
    obtain c cs where ds: "?ds = c # cs"
      using to_string_nat_nonempty [of d] by (cases ?ds) auto
    have dig: "\<forall>c \<in> set ?ds. isdigit c" by (rule to_string_nat_digits)
    then have c: "isdigit c" by (simp add: ds)
    have stop: "r = [] \<or> \<not> isdigit (hd r)" using r by auto
    have t: "takeWhile isdigit (?ds @ r) = ?ds" by (rule takeWhile_stop [OF dig stop])
    have e: "dropWhile isdigit (?ds @ r) = r" by (rule dropWhile_stop [OF dig stop])
    have "num_get_double nat_platform (?ds @ r) = (d, False, r)"
      by (simp add: nat_platform_def t e digits_value_to_string_nat to_string_nat_nonempty)
    moreover have "\<not> isspace (hd ?ds)" using c by (simp add: ds isdigit_not_space)
    ultimately show ?thesis by (simp add: to_string_nat_nonempty)
  qed
  then show ?thesis unfolding double_codec_def by blast
qed

text \<open>
  The parser returns an event for every line: no input makes it fail. And a line whose
  leading token is a recognized type other than \<open>patch_set\<close> is never parsed to
  \<open>Unknown\<close>, whatever follows the token.
\<close>

lemma parse_feedback_line_total: "\<exists>m. parse_feedback_line pf ind line = Some m"
  by (simp add: parse_feedback_line_def case_prod_beta split: reader_result.split)

lemma parse_recognized_never_unknown:
  assumes "leading_token line \<in> set recognized_types" and "leading_token line \<noteq> ''patch_set''"
  shows "parse_feedback_line pf ind line \<noteq> Some (UnknownFeedback raw)"
proof -
  obtain iss where g: "get_string (istringstream_new line) [] = (iss, leading_token line)"
    using leading_token_get_string [of line]
    by (cases "get_string (istringstream_new line) []") auto
  show ?thesis
    using assms unfolding parse_feedback_line_def g
    by (auto simp: recognized_types_def case_prod_beta)
qed

text \<open>
  C4. A \<open>param_set\<close> line whose effect id is not a number, and one whose fields are
  missing, are not parsed to \<open>Unknown\<close>: the stream's failure raises nothing, the
  handler that returns \<open>Unknown\<close> is not reached, and a \<open>ParamSet\<close> comes back whose
  fields are 0, the empty string, or whatever the uninitialised locals held.
\<close>

theorem parse_failure_within_recognized_type:
  "parse_feedback_line pf ind ''param_set abc gain 0.5'' = Some (ParamSet 0 [] (ind_f64 ind))
   \<and> parse_feedback_line pf ind ''param_set 7'' = Some (ParamSet 7 [] (ind_f64 ind))
   \<and> parse_feedback_line pf ind ''param_set'' = Some (ParamSet (ind_u32 ind) [] (ind_f64 ind))"
  by (simp add: parse_feedback_line_def istringstream_new_def sentry_def get_string_def
        strip_sign_def is_negative_def num_get_unsigned_def extract_num_def get_u32_def
        get_double_def isspace_def isdigit_def digits_value_def digit_value_def Let_def)

text \<open>
  C8. Round trip: for every record of the grammar, with fields the grammar admits and a
  C library that reads back the doubles it prints, parsing the wire line gives the event
  with the record's fields; and a line whose leading token is not a recognized type
  parses to \<open>Unknown\<close> with the whole line as its raw field.
\<close>

theorem feedback_round_trip:
  "(double_codec pf fmt \<and> fields_ok pf t \<longrightarrow>
      parse_feedback_line pf ind (wire_line fmt t) = Some (event_of pf t))
   \<and> (leading_token line \<notin> set recognized_types \<longrightarrow>
      parse_feedback_line pf ind line = Some (UnknownFeedback line))"
  using parse_wire_line [of pf fmt t ind] parse_unknown [of line pf ind] by blast

theorem feedback_round_trip_witness:
  "double_codec nat_platform to_string_nat
   \<and> fields_ok nat_platform (F_param_set 7 ''gain'' 25)
   \<and> parse_feedback_line nat_platform ind0 ''param_set 7 gain 25'' = Some (ParamSet 7 ''gain'' 25)
   \<and> leading_token ''bogus 1 2'' \<notin> set recognized_types
   \<and> parse_feedback_line nat_platform ind0 ''bogus 1 2'' = Some (UnknownFeedback ''bogus 1 2'')"
proof -
  have w: "wire_line to_string_nat (F_param_set 7 ''gain'' 25) = ''param_set 7 gain 25''"
    by code_simp
  have ok: "fields_ok nat_platform (F_param_set 7 ''gain'' 25)"
    by (simp add: is_token_def isspace_def)
  have unk: "leading_token ''bogus 1 2'' \<notin> set recognized_types"
    by (simp add: leading_token_def recognized_types_def isspace_def)
  show ?thesis
    using feedback_round_trip [of nat_platform to_string_nat "F_param_set 7 ''gain'' 25"
            ind0 "''bogus 1 2''", unfolded w]
      nat_platform_codec ok unk
    by (simp del: fields_ok.simps)
qed

section \<open>Command client and command service: proofs\<close>

lemma modhost_payload_eq: "modhost_payload command = command"
  by (simp add: modhost_payload_def string_plus_cstr_def nul_literal_def)

lemma send_to_modhost_writes_command:
  assumes "mh (engine w) command = (Received bytes, e)"
  shows "sent_bytes (snd (send_to_modhost mh command w)) = sent_bytes w @ [command]"
  using assms
  by (simp add: send_to_modhost_def written_bytes_def modhost_payload_eq)

text \<open>
  C2. The bytes written for a command are the command alone: appending the literal
  \<^verbatim>\<open>"\0"\<close> appends the empty C string, so no NUL byte follows the command.
\<close>

theorem written_bytes_lack_NUL:
  "written_bytes command = command \<and> written_bytes command \<noteq> command @ [NUL]
   \<and> written_bytes ''help'' = ''help''"
  by (simp add: written_bytes_def modhost_payload_eq)

lemma process_command_not_null:
  "fst (process_command mh request w) \<noteq> (JNull :: 'd json)"
  by (simp add: process_command_def Let_def split: prod.split option.split)

lemma dispatch_legacy_command:
  "dispatch_request (pf :: 'd platform) mh ppc (Parsed (JObject [(''command'', JString c)])) w =
     (JNull, snd (process_command mh (RawCommand c) w :: 'd json \<times> _))"
  by (simp add: dispatch_request_def is_plugin_request_def parse_command_request_def
        and_then_def isMember_def json_member_def asString_def Let_def split: prod.split)

text \<open>
  C1. For the legacy request \<^verbatim>\<open>{"command": "help"}\<close> the value written to the socket
  is JSON null, whatever the engine answers, while \<open>process_command\<close> is run (its effect on
  the engine and the health state is kept) and its object, never null, is dropped.
\<close>

theorem legacy_response_is_null:
  "legacy_request (JObject [(''command'', JString ''help'')] :: 'd json)
   \<and> fst (dispatch_request (pf :: 'd platform) mh ppc (Parsed (JObject [(''command'', JString ''help'')])) w)
       = (JNull :: 'd json)
   \<and> fst (process_command mh (RawCommand ''help'') w) \<noteq> (JNull :: 'd json)
   \<and> snd (dispatch_request pf mh ppc (Parsed (JObject [(''command'', JString ''help'')])) w)
       = snd (process_command mh (RawCommand ''help'') w :: 'd json \<times> _)"
  by (simp add: dispatch_legacy_command process_command_not_null legacy_request_def)

section \<open>Search engine: proofs\<close>

lemma string_find_sublist: "(string_find hay needle \<noteq> None) = sublist needle hay"
  by (induction hay) (auto simp: sublist_Cons_right)

lemma static_cast_int_small: "n < 2147483648 \<Longrightarrow> static_cast_int n = int n"
  unfolding static_cast_int_def
  by (simp add: signed_of_nat signed_take_bit_int_eq_self)

lemma string_find_None: "(string_find hay needle = None) = (\<not> sublist needle hay)"
  using string_find_sublist [of hay needle] by blast

lemma matchesCriteria_applied:
  assumes "length (audio_inputs (info_ports plugin)) < 2147483648"
    and "length (audio_outputs (info_ports plugin)) < 2147483648"
  shows "matchesCriteria plugin crit = criteria_applied crit plugin"
proof -
  define cat_ok where
    "cat_ok = (\<exists>cat \<in> set (category plugin). contains_ci (crit_category crit) cat)"
  define auth_ok where
    "auth_ok = contains_ci (crit_author crit) (author_name (author plugin))"
  define n_in where "n_in = int (length (audio_inputs (info_ports plugin)))"
  define n_out where "n_out = int (length (audio_outputs (info_ports plugin)))"
  have c: "list_ex (\<lambda>cat. string_find (toLower cat) (toLower (crit_category crit)) \<noteq> None)
             (category plugin) = cat_ok"
    by (simp only: list_ex_iff string_find_sublist contains_ci_def cat_ok_def)
  have a: "(string_find (toLower (author_name (author plugin))) (toLower (crit_author crit)) = None)
             = (\<not> auth_ok)"
    by (simp only: string_find_None contains_ci_def auth_ok_def)
  have i: "static_cast_int (length (audio_inputs (info_ports plugin))) = n_in"
    using assms(1) by (simp only: static_cast_int_small n_in_def)
  have o: "static_cast_int (length (audio_outputs (info_ports plugin))) = n_out"
    using assms(2) by (simp only: static_cast_int_small n_out_def)
  have nn: "0 \<le> n_in" "0 \<le> n_out" by (simp_all add: n_in_def n_out_def)
  have "matchesCriteria plugin crit =
          ((crit_category crit = [] \<or> cat_ok) \<and> (crit_author crit = [] \<or> auth_ok)
           \<and> (min_audio_inputs crit < 0 \<or> min_audio_inputs crit \<le> n_in)
           \<and> (min_audio_outputs crit < 0 \<or> min_audio_outputs crit \<le> n_out)
           \<and> (max_audio_inputs crit < 0 \<or> n_in \<le> max_audio_inputs crit)
           \<and> (max_audio_outputs crit < 0 \<or> n_out \<le> max_audio_outputs crit))"
    unfolding matchesCriteria_def c a i o using nn by auto
  then show ?thesis
    unfolding criteria_applied_def cat_ok_def auth_ok_def n_in_def n_out_def .
qed

lemma catalog_ABC_small:
  "\<forall>p \<in> snd ` set [(''A'', plugin_A), (''B'', plugin_B), (''C'', plugin_C)].
     length (audio_inputs (info_ports p)) < 2147483648
     \<and> length (audio_outputs (info_ports p)) < 2147483648"
  by (simp add: plugin_A_def plugin_B_def plugin_C_def example_plugin_def stereo_ports_def
        mono_ports_def)

text \<open>
  C6, as the code has it. With a criteria object, the result is the catalog filtered by
  the category, the author and the four audio port bounds, each of them only when set;
  \<open>has_parameter\<close> (as \<open>requires_realtime\<close> and \<open>required_features\<close>) is not looked at.
  The port lists are shorter than \<open>2^31\<close>, so that their sizes fit \<^verbatim>\<open>int\<close>.
\<close>

theorem search_with_criteria:
  assumes "search_engine w"
    and "\<forall>p \<in> snd ` set (available_plugins w).
           length (audio_inputs (info_ports p)) < 2147483648
           \<and> length (audio_outputs (info_ports p)) < 2147483648"
  shows "fst (process_search_plugins \<lparr>query = q, criteria = Some crit\<rparr> w) =
           Inr (SearchPluginsResponse
                  (map snd (filter (\<lambda>pair. criteria_applied crit (snd pair))
                                   (available_plugins w))))"
proof -
  have "filter (\<lambda>pair. matchesCriteria (snd pair) crit) (available_plugins w) =
        filter (\<lambda>pair. criteria_applied crit (snd pair)) (available_plugins w)"
    using assms(2) by (intro filter_cong refl matchesCriteria_applied) auto
  then show ?thesis
    using assms(1) by (simp add: process_search_plugins_def filterPlugins_def)
qed

lemma crit_rev_applied:
  "filter (\<lambda>pair. criteria_applied
              (PluginSearchCriteria_new\<lparr>crit_category := ''rev'', min_audio_inputs := 2\<rparr>) (snd pair))
     [(''A'', plugin_A), (''B'', plugin_B), (''C'', plugin_C)] = [(''A'', plugin_A)]"
  by code_simp

theorem search_with_criteria_witness:
  "search_engine (example_manager [(''A'', plugin_A), (''B'', plugin_B), (''C'', plugin_C)] None)
   \<and> available_plugins
        (example_manager [(''A'', plugin_A), (''B'', plugin_B), (''C'', plugin_C)] None)
       = [(''A'', plugin_A), (''B'', plugin_B), (''C'', plugin_C)]
   \<and> length (audio_inputs (info_ports plugin_A)) = 2
   \<and> length (audio_outputs (info_ports plugin_A)) = 2
   \<and> length (audio_inputs (info_ports plugin_B)) = 1
   \<and> length (audio_outputs (info_ports plugin_B)) = 1
   \<and> length (audio_inputs (info_ports plugin_C)) = 2
   \<and> length (audio_outputs (info_ports plugin_C)) = 2
   \<and> fst (process_search_plugins
        \<lparr>query = [],
         criteria = Some (PluginSearchCriteria_new\<lparr>crit_category := ''rev'',
                                                    min_audio_inputs := 2\<rparr>)\<rparr>
        (example_manager [(''A'', plugin_A), (''B'', plugin_B), (''C'', plugin_C)] None))
      = Inr (SearchPluginsResponse [plugin_A])"
proof -
  have se: "search_engine
              (example_manager [(''A'', plugin_A), (''B'', plugin_B), (''C'', plugin_C)] None)"
    and av: "available_plugins
              (example_manager [(''A'', plugin_A), (''B'', plugin_B), (''C'', plugin_C)] None)
             = [(''A'', plugin_A), (''B'', plugin_B), (''C'', plugin_C)]"
    by (simp_all add: example_manager_def)
  have small: "\<forall>p \<in> snd ` set (available_plugins
          (example_manager [(''A'', plugin_A), (''B'', plugin_B), (''C'', plugin_C)] None)).
         length (audio_inputs (info_ports p)) < 2147483648
         \<and> length (audio_outputs (info_ports p)) < 2147483648"
    unfolding av by (rule catalog_ABC_small)
  show ?thesis
    using search_with_criteria [OF se small, of "[]"
            "PluginSearchCriteria_new\<lparr>crit_category := ''rev'', min_audio_inputs := 2\<rparr>"]
      se av
    unfolding av crit_rev_applied
    by (simp add: plugin_A_def plugin_B_def plugin_C_def example_plugin_def stereo_ports_def
          mono_ports_def)
qed

text \<open>
  C6 as stated fails: a criteria object that asks for a parameter \<open>gain\<close> returns
  plugin A, which has no control port at all.
\<close>

theorem search_ignores_has_parameter:
  "fst (process_search_plugins
        \<lparr>query = [], criteria = Some (PluginSearchCriteria_new\<lparr>has_parameter := ''gain''\<rparr>)\<rparr>
        (example_manager [(''A'', plugin_A)] None))
     = Inr (SearchPluginsResponse [plugin_A])
   \<and> \<not> criteria_claimed (PluginSearchCriteria_new\<lparr>has_parameter := ''gain''\<rparr>) plugin_A"
  by (simp add: process_search_plugins_def filterPlugins_def matchesCriteria_def
        example_manager_def PluginSearchCriteria_new_def criteria_claimed_def plugin_A_def
        example_plugin_def stereo_ports_def)

section \<open>Plugin manager and feedback reader: proofs\<close>

lemma send_to_modhost_manager_fields:
  "instances (snd (send_to_modhost mh command (w :: ('d, 'e) PluginManager))) = instances w"
  "pub_socket (snd (send_to_modhost mh command w)) = pub_socket w"
  "available_plugins (snd (send_to_modhost mh command w)) = available_plugins w"
  "system_clock (snd (send_to_modhost mh command w)) = system_clock w"
  by (simp_all add: send_to_modhost_def split: prod.split net_outcome.split)

lemma set_initial_parameters_fields:
  "instances (set_initial_parameters pf mh i ps (w :: ('d, 'e) PluginManager)) = instances w"
  "pub_socket (set_initial_parameters pf mh i ps w) = pub_socket w"
  "available_plugins (set_initial_parameters pf mh i ps w) = available_plugins w"
  "system_clock (set_initial_parameters pf mh i ps w) = system_clock w"
  by (induction pf mh i ps w rule: set_initial_parameters.induct)
     (simp_all add: send_to_modhost_manager_fields)

lemma publish_event_instances: "instances (publish_event t p w) = instances w"
  by (simp add: publish_event_def split: option.split)

lemma publish_feedback_instances:
  "instances (publish_feedback pf ind line w) = instances w"
  by (simp add: publish_feedback_def split: option.split)

lemma process_received_instances:
  "instances (snd (process_received pf ind bytes st)) = instances (snd st)"
  by (induction pf ind bytes st rule: process_received.induct)
     (simp_all add: publish_feedback_instances)

lemma reply_rejected_examples:
  "reply_rejected ''resp abc''" "reply_rejected ''resp -3''" "reply_rejected ''resp''"
  "reply_rejected []" "\<not> reply_rejected ''resp 0''" "\<not> reply_rejected ''resp 12 ok''"
  "\<not> reply_rejected ''7''"
  by code_simp+

lemma parse_returned_instance_rejected:
  "reply_rejected reply \<Longrightarrow>
     parse_returned_instance reply = Inl (runtime_error ''Failed to parse mod-host response'')"
  by (auto simp: reply_rejected_def parse_returned_instance_def split: sum.splits)

text \<open>
  On an answer that starts with \<^verbatim>\<open>resp \<close> the code's reading is the claim's: the code
  refuses it exactly when it is malformed or carries a negative integer.
\<close>

lemma string_find_prefix: "prefix needle hay \<Longrightarrow> string_find hay needle = Some 0"
  by (cases hay) auto

lemma reply_rejected_resp_line:
  assumes "prefix ''resp '' reply"
  shows "reply_rejected reply
           = (claimed_malformed reply \<or> (\<exists>n. stoi (drop 5 reply) = Inr n \<and> n < 0))"
  using assms
  by (auto simp: reply_rejected_def claimed_malformed_def after_resp_def string_find_prefix
        split: sum.splits)

text \<open>
  C7, as the code has it. When \<^verbatim>\<open>std::stoi\<close> reads no integer from the engine's answer
  to \<^verbatim>\<open>add <uri> <n>\<close> (from the text after the first \<^verbatim>\<open>resp \<close>, or from the whole
  answer when it has no \<^verbatim>\<open>resp \<close>), or the integer is negative,
  \<open>process_load_plugin\<close> fails with an error, the instance map is unchanged and nothing is
  published.
\<close>

theorem load_plugin_rejected_reply:
  assumes "mh (engine w)
             (written_bytes (''add '' @ lp_uri req @ '' '' @ to_string_int (next_instance w)))
           = (Received bytes, e')"
    and "reply_rejected (response_of bytes)"
  shows "(\<exists>e. fst (process_load_plugin pf mh req w) = Inl e)
         \<and> instances (snd (process_load_plugin pf mh req w)) = instances w
         \<and> pub_socket (snd (process_load_plugin pf mh req w)) = pub_socket w"
proof (cases "map_of (available_plugins w) (lp_uri req)")
  case None
  then show ?thesis by (simp add: process_load_plugin_def)
next
  case (Some plugin_info)
  show ?thesis
    using assms
    by (simp add: process_load_plugin_def Some generate_instance_id_def
          get_next_numeric_instance_def send_to_modhost_def
          parse_returned_instance_rejected)
qed


theorem load_plugin_rejected_reply_witness:
  "engine_malformed (engine (example_manager [(''A'', plugin_A)] None))
       (written_bytes (''add '' @ lp_uri \<lparr>lp_uri = ''A'', lp_x = 0, lp_y = 0,
                                           lp_parameters = [(''gain'', 5)]\<rparr> @ '' ''
            @ to_string_int (next_instance (example_manager [(''A'', plugin_A)] None))))
     = (Received ''resp abc'', ())
   \<and> reply_rejected (response_of ''resp abc'')
   \<and> fst (process_load_plugin nat_platform engine_malformed
            \<lparr>lp_uri = ''A'', lp_x = 0, lp_y = 0, lp_parameters = [(''gain'', 5)]\<rparr>
            (example_manager [(''A'', plugin_A)] None))
       = Inl (runtime_error ''Failed to parse mod-host response'')
   \<and> instances (snd (process_load_plugin nat_platform engine_malformed
            \<lparr>lp_uri = ''A'', lp_x = 0, lp_y = 0, lp_parameters = [(''gain'', 5)]\<rparr>
            (example_manager [(''A'', plugin_A)] None))) = []
   \<and> pub_socket (snd (process_load_plugin nat_platform engine_malformed
            \<lparr>lp_uri = ''A'', lp_x = 0, lp_y = 0, lp_parameters = [(''gain'', 5)]\<rparr>
            (example_manager [(''A'', plugin_A)] None))) = Some []"
proof -
  let ?w = "example_manager [(''A'', plugin_A)] None"
  let ?req = "\<lparr>lp_uri = ''A'', lp_x = 0 :: nat, lp_y = 0, lp_parameters = [(''gain'', 5)]\<rparr>"
  have r: "engine_malformed (engine ?w)
             (written_bytes (''add '' @ lp_uri ?req @ '' '' @ to_string_int (next_instance ?w)))
           = (Received ''resp abc'', ())"
    by (simp add: engine_malformed_def)
  have rej: "reply_rejected (response_of ''resp abc'')"
    by code_simp
  have err: "fst (process_load_plugin nat_platform engine_malformed ?req ?w)
       = Inl (runtime_error ''Failed to parse mod-host response'')"
    using rej
    by (simp add: process_load_plugin_def example_manager_def generate_instance_id_def
          get_next_numeric_instance_def send_to_modhost_def engine_malformed_def
          parse_returned_instance_rejected)
  show ?thesis
    using load_plugin_rejected_reply [of engine_malformed ?w ?req "''resp abc''" "()" nat_platform,
            OF r rej] r rej err
    by (simp add: example_manager_def)
qed

lemma static_cast_int_1 [simp]: "static_cast_int (Suc 0) = 1" "static_cast_int 0 = 0"
  by (simp_all add: static_cast_int_def)

lemma validate_plugin_B: "is_valid (validatePlugin plugin_B)"
  by (simp add: validatePlugin_def isKnownIncompatible_def checkLv2Features_def
        checkAudioPorts_def checkControlPorts_def range_errors_def plugin_B_def
        example_plugin_def mono_ports_def Let_def)

lemma rescan_A_to_B:
  "rescan_plugins (example_manager [(''A'', plugin_A)] (Some scanner_B))
   = (example_manager [(''A'', plugin_A)] (Some scanner_B))
       \<lparr>pub_socket := Some [JObject [(''type'', JString ''plugins_rescanned''),
                                      (''timestamp'', JInt 0),
                                      (''data'', JObject [(''plugin_count'', JInt 1)])]],
        available_plugins := [(''B'', plugin_B)]\<rparr>"
  by (simp add: rescan_plugins_def rescan_try_def example_manager_def scanner_B_def
        validate_plugin_B publish_event_def Let_def)

text \<open>
  C5. A rescan that replaces plugin A by plugin B reports 0 added and 0 removed: the two
  numbers are the difference of the catalog sizes and its negation, while one URI was
  added and one removed.
\<close>

theorem rescan_reports_net_change:
  "process_rescan_plugins (example_manager [(''A'', plugin_A)] (Some scanner_B))
     = (Inr (RescanPluginsResponse ''ok'' 0 0),
        (example_manager [(''A'', plugin_A)] (Some scanner_B))
          \<lparr>pub_socket := Some [JObject [(''type'', JString ''plugins_rescanned''),
                                         (''timestamp'', JInt 0),
                                         (''data'', JObject [(''plugin_count'', JInt 1)])]],
           available_plugins := [(''B'', plugin_B)]\<rparr>)
   \<and> added_count [(''A'', plugin_A)] [(''B'', plugin_B)] = 1
   \<and> removed_count [(''A'', plugin_A)] [(''B'', plugin_B)] = 1"
  by (simp add: process_rescan_plugins_def rescan_A_to_B Let_def added_count_def
        removed_count_def, simp add: example_manager_def)

lemma fetch_detailed_throws:
  "uri \<in> set uris \<Longrightarrow> get_plugin_info sc uri = Inl e \<Longrightarrow>
     \<exists>e'. fetch_detailed sc uris acc = Inl e'"
proof (induction uris arbitrary: acc)
  case Nil
  then show ?case by simp
next
  case (Cons u uris)
  show ?case
  proof (cases "get_plugin_info sc u")
    case (Inl e0)
    then show ?thesis by simp
  next
    case (Inr found)
    with Cons.prems have "uri \<in> set uris" by auto
    from Cons.IH [OF this Cons.prems(2)] Inr show ?thesis
      by (cases found) simp_all
  qed
qed

lemma rescan_try_throws:
  assumes "scan_plugins sc = Inl e
           \<or> (\<exists>mini uri. scan_plugins sc = Inr mini \<and> uri \<in> fst ` set mini
                            \<and> get_plugin_info sc uri = Inl e)"
  shows "\<exists>e'. rescan_try sc w = Inl e'"
  using assms
proof
  assume "scan_plugins sc = Inl e"
  then show ?thesis by (simp add: rescan_try_def)
next
  assume "\<exists>mini uri. scan_plugins sc = Inr mini \<and> uri \<in> fst ` set mini
            \<and> get_plugin_info sc uri = Inl e"
  then obtain mini uri where m: "scan_plugins sc = Inr mini"
    and u: "uri \<in> set (map fst mini)" and g: "get_plugin_info sc uri = Inl e"
    by auto
  from fetch_detailed_throws [OF u g, of "[]"] m show ?thesis
    by (auto simp: rescan_try_def)
qed

text \<open>
  C10. When the scan throws, or the fetch of the detailed record of a scanned URI throws,
  \<open>rescan_plugins\<close> (and with it the \<open>rescan_plugins\<close> request) leaves the catalog as it
  was and publishes nothing.
\<close>

theorem rescan_failure_leaves_catalog:
  assumes "plugin_scanner w = Some sc"
    and "scan_plugins sc = Inl e
         \<or> (\<exists>mini uri. scan_plugins sc = Inr mini \<and> uri \<in> fst ` set mini
                          \<and> get_plugin_info sc uri = Inl e)"
  shows "available_plugins (rescan_plugins w) = available_plugins w
         \<and> pub_socket (rescan_plugins w) = pub_socket w
         \<and> available_plugins (snd (process_rescan_plugins w)) = available_plugins w
         \<and> pub_socket (snd (process_rescan_plugins w)) = pub_socket w"
proof -
  from rescan_try_throws [OF assms(2), of w] obtain e' where "rescan_try sc w = Inl e'" ..
  with assms(1) have "rescan_plugins w = w" by (simp add: rescan_plugins_def)
  then show ?thesis by (simp add: process_rescan_plugins_def Let_def)
qed

theorem rescan_failure_leaves_catalog_witness:
  "plugin_scanner (example_manager [(''A'', plugin_A)] (Some scanner_info_throws))
     = Some scanner_info_throws
   \<and> scan_plugins scanner_info_throws = Inr [(''B'', plugin_B)]
   \<and> ''B'' \<in> fst ` set [(''B'', plugin_B)]
   \<and> get_plugin_info scanner_info_throws ''B''
       = Inl (runtime_error ''Plugin scanner not initialized'')
   \<and> available_plugins
        (rescan_plugins (example_manager [(''A'', plugin_A)] (Some scanner_info_throws)))
       = [(''A'', plugin_A)]
   \<and> pub_socket
        (rescan_plugins (example_manager [(''A'', plugin_A)] (Some scanner_info_throws)))
       = Some []"
proof -
  let ?w = "example_manager [(''A'', plugin_A)] (Some scanner_info_throws)"
  have s: "plugin_scanner ?w = Some scanner_info_throws"
    by (simp add: example_manager_def)
  have m: "scan_plugins scanner_info_throws = Inr [(''B'', plugin_B)]"
    and g: "get_plugin_info scanner_info_throws ''B''
              = Inl (runtime_error ''Plugin scanner not initialized'')"
    by (simp_all add: scanner_info_throws_def)
  have h: "scan_plugins scanner_info_throws
             = Inl (runtime_error ''Plugin scanner not initialized'')
           \<or> (\<exists>mini uri. scan_plugins scanner_info_throws = Inr mini \<and> uri \<in> fst ` set mini
                 \<and> get_plugin_info scanner_info_throws uri
                     = Inl (runtime_error ''Plugin scanner not initialized''))"
    using m g by auto
  show ?thesis
    using rescan_failure_leaves_catalog [OF s h] s m g
    by (simp add: example_manager_def)
qed

lemma written_bytes_eq [simp]: "written_bytes command = command"
  by (simp add: written_bytes_def modhost_payload_def string_plus_cstr_def nul_literal_def)

lemma to_string_0 [simp]: "to_string_int 0 = ''0''" "to_string_nat 0 = ''0''"
  by code_simp+

lemma hex_id [simp]: "map (\<lambda>i. hex_digit (i mod 16)) [0..<8] = ''01234567''"
  by code_simp

lemma response_resp_0 [simp]: "response_of ''resp 0'' = ''resp 0''"
  by (simp add: response_of_def string_of_cstr_def NUL_def)

lemma parse_resp_0 [simp]: "parse_returned_instance ''resp 0'' = Inr 0"
  by code_simp

lemma scenario_loaded_eq:
  "scenario_loaded =
     \<lparr>health_state =
        update_command_connection False 0 (update_command_connection True 0 (HealthState_new 0)),
      steady_clock = 0, engine = (), sent_bytes = [''add A 0''], system_clock = 0,
      random_source = (\<lambda>i. i), random_taken = 8,
      pub_socket =
        Some [JObject [(''type'', JString ''plugin_loaded''), (''timestamp'', JInt 0),
                       (''data'', JObject [(''instance_id'', JString ''plugin_0_01234567''),
                                           (''uri'', JString ''A''), (''name'', JString ''A'')])]],
      plugin_scanner = None, plugin_validator = True, search_engine = True,
      available_plugins = [(''A'', plugin_A)],
      instances = [(''plugin_0_01234567'', scenario_instance)], next_instance = 1\<rparr>"
  by (simp add: scenario_loaded_def scenario_request_def process_load_plugin_def
        example_manager_def generate_instance_id_def get_next_numeric_instance_def
        send_to_modhost_def engine_add_only_def publish_event_def Let_def nat_platform_def
        scenario_instance_def plugin_A_def example_plugin_def)


lemma parse_param_set_0_gain_2:
  "parse_feedback_line nat_platform ind0 ''param_set 0 gain 2'' = Some (ParamSet 0 ''gain'' 2)"
proof -
  have w: "wire_line to_string_nat (F_param_set 0 ''gain'' 2) = ''param_set 0 gain 2''"
    by code_simp
  have ok: "fields_ok nat_platform (F_param_set 0 ''gain'' 2)"
    by (simp add: is_token_def isspace_def)
  show ?thesis
    using parse_wire_line [OF nat_platform_codec ok, of ind0] unfolding w by simp
qed

lemma scenario_after_feedback_eq:
  "scenario_after_feedback =
     scenario_loaded\<lparr>pub_socket :=
       Some [JObject [(''type'', JString ''plugin_loaded''), (''timestamp'', JInt 0),
                       (''data'', JObject [(''instance_id'', JString ''plugin_0_01234567''),
                                           (''uri'', JString ''A''), (''name'', JString ''A'')])],
             JObject [(''type'', JString ''param_set''), (''effect_id'', JInt 0),
                       (''symbol'', JString ''gain''), (''value'', JReal 2)]]\<rparr>"
  unfolding scenario_after_feedback_def
  by (simp add: NUL_def publish_feedback_def parse_param_set_0_gain_2 scenario_loaded_eq)

text \<open>
  C3 as stated fails. In the run above the stored value of \<open>gain\<close> is 5: the
  \<^verbatim>\<open>param_set\<close> that carried it was never delivered (only the \<^verbatim>\<open>add\<close> was written
  to the engine), and the feedback record that sets \<open>gain\<close> to 2 for engine instance 0
  was published and did not change the stored map.
\<close>

theorem feedback_does_not_reach_parameter_map:
  "map_option parameters (map_of (instances scenario_after_feedback) ''plugin_0_01234567'')
     = Some [(''gain'', 5)]
   \<and> sent_bytes scenario_after_feedback = [''add A 0'']
   \<and> pub_socket scenario_after_feedback =
       Some [JObject [(''type'', JString ''plugin_loaded''), (''timestamp'', JInt 0),
                       (''data'', JObject [(''instance_id'', JString ''plugin_0_01234567''),
                                           (''uri'', JString ''A''), (''name'', JString ''A'')])],
             JObject [(''type'', JString ''param_set''), (''effect_id'', JInt 0),
                       (''symbol'', JString ''gain''), (''value'', JReal 2)]]"
  by (simp add: scenario_after_feedback_eq scenario_loaded_eq scenario_instance_def)

lemma set_parameter_failed:
  assumes "map_of (instances w) (sp_instance_id req) = Some inst"
    and "fst (send_to_modhost mh (param_set_command pf req) w) = None"
  shows "fst (process_set_parameter pf mh req w)
           = Inl (runtime_error ''Failed to set parameter in mod-host'')
         \<and> instances (snd (process_set_parameter pf mh req w)) = instances w"
proof -
  obtain r w1 where s: "send_to_modhost mh (param_set_command pf req) w = (r, w1)"
    by (cases "send_to_modhost mh (param_set_command pf req) w")
  have i: "instances w1 = instances w"
    using send_to_modhost_manager_fields(1) [of mh "param_set_command pf req" w] by (simp add: s)
  show ?thesis
    using assms s i
    by (simp add: process_set_parameter_def param_set_command_def)
qed

lemma set_parameter_sent:
  assumes "map_of (instances w) (sp_instance_id req) = Some inst"
    and "fst (send_to_modhost mh (param_set_command pf req) w) = Some r"
  shows "fst (process_set_parameter pf mh req w)
           = Inr (SetParameterResponse ''ok'' (sp_req_value req))
         \<and> map_of (instances (snd (process_set_parameter pf mh req w))) (sp_instance_id req)
           = Some (inst\<lparr>parameters :=
                          AList.update (sp_parameter req) (sp_req_value req) (parameters inst)\<rparr>)"
proof -
  obtain r' w1 where s: "send_to_modhost mh (param_set_command pf req) w = (r', w1)"
    by (cases "send_to_modhost mh (param_set_command pf req) w")
  have i: "instances w1 = instances w"
    using send_to_modhost_manager_fields(1) [of mh "param_set_command pf req" w] by (simp add: s)
  show ?thesis
    using assms s i
    by (simp add: process_set_parameter_def param_set_command_def Let_def
          publish_event_instances update_conv')
qed

lemma load_plugin_records_request:
  assumes "process_load_plugin pf mh req w = (Inr (LoadPluginResponse iid inst), w')"
  shows "parameters inst = lp_parameters req \<and> map_of (instances w') iid = Some inst"
  using assms
  by (auto simp: process_load_plugin_def Let_def publish_event_instances update_conv'
        generate_instance_id_def get_next_numeric_instance_def
        split: option.splits prod.splits sum.splits)

text \<open>
  C3, as the code has it. Feedback never changes the instance map. A \<open>set_parameter\<close>
  whose send fails is an error and leaves the map as it was; one whose send succeeds
  stores the value for that parameter of that instance. A successful \<open>load_plugin\<close>
  stores the initial parameters of the request as they are.
\<close>

theorem stored_parameters_follow_registry:
  "instances (snd (process_received pf ind bytes (line_buffer, w))) = instances w
   \<and> (map_of (instances w) (sp_instance_id sreq) = Some inst
        \<and> fst (send_to_modhost mh (param_set_command pf sreq) w) = None \<longrightarrow>
      fst (process_set_parameter pf mh sreq w)
        = Inl (runtime_error ''Failed to set parameter in mod-host'')
      \<and> instances (snd (process_set_parameter pf mh sreq w)) = instances w)
   \<and> (map_of (instances w) (sp_instance_id sreq) = Some inst
        \<and> fst (send_to_modhost mh' (param_set_command pf sreq) w) = Some r \<longrightarrow>
      fst (process_set_parameter pf mh' sreq w)
        = Inr (SetParameterResponse ''ok'' (sp_req_value sreq))
      \<and> map_of (instances (snd (process_set_parameter pf mh' sreq w))) (sp_instance_id sreq)
        = Some (inst\<lparr>parameters :=
                       AList.update (sp_parameter sreq) (sp_req_value sreq) (parameters inst)\<rparr>))
   \<and> (process_load_plugin pf mh lreq w0 = (Inr (LoadPluginResponse iid linst), w0') \<longrightarrow>
      parameters linst = lp_parameters lreq \<and> map_of (instances w0') iid = Some linst)"
  using process_received_instances [of pf ind bytes "(line_buffer, w)"]
    set_parameter_failed [of w sreq inst mh pf]
    set_parameter_sent [of w sreq inst mh' pf r]
    load_plugin_records_request [of pf mh lreq w0 iid linst w0']
  by simp

lemma scenario_load_result:
  "process_load_plugin nat_platform engine_add_only scenario_request
     (example_manager [(''A'', plugin_A)] None)
   = (Inr (LoadPluginResponse ''plugin_0_01234567'' scenario_instance), scenario_loaded)"
proof -
  have "fst (process_load_plugin nat_platform engine_add_only scenario_request
               (example_manager [(''A'', plugin_A)] None))
        = Inr (LoadPluginResponse ''plugin_0_01234567'' scenario_instance)"
    by (simp add: scenario_request_def process_load_plugin_def
        example_manager_def generate_instance_id_def get_next_numeric_instance_def
        send_to_modhost_def engine_add_only_def Let_def
        scenario_instance_def plugin_A_def example_plugin_def)
  then show ?thesis
    by (simp add: prod_eq_iff scenario_loaded_def)
qed

theorem stored_parameters_follow_registry_witness:
  "map_of (instances scenario_loaded) (sp_instance_id scenario_set_gain) = Some scenario_instance
   \<and> fst (send_to_modhost engine_add_only (param_set_command nat_platform scenario_set_gain)
            scenario_loaded) = None
   \<and> instances (snd (process_set_parameter nat_platform engine_add_only scenario_set_gain
                        scenario_loaded))
       = [(''plugin_0_01234567'', scenario_instance)]
   \<and> fst (send_to_modhost engine_ok (param_set_command nat_platform scenario_set_gain)
            scenario_loaded) = Some ''resp 0''
   \<and> map_of (instances (snd (process_set_parameter nat_platform engine_ok scenario_set_gain
                                scenario_loaded))) ''plugin_0_01234567''
       = Some (scenario_instance\<lparr>parameters := [(''gain'', 7)]\<rparr>)
   \<and> process_load_plugin nat_platform engine_add_only scenario_request
        (example_manager [(''A'', plugin_A)] None)
       = (Inr (LoadPluginResponse ''plugin_0_01234567'' scenario_instance), scenario_loaded)
   \<and> parameters scenario_instance = lp_parameters scenario_request
   \<and> instances (snd (process_received nat_platform ind0 (''param_set 0 gain 2'' @ [NUL])
                        ([], scenario_loaded)))
       = [(''plugin_0_01234567'', scenario_instance)]"
proof -
  have h1: "map_of (instances scenario_loaded) (sp_instance_id scenario_set_gain)
              = Some scenario_instance"
    by (simp add: scenario_loaded_eq scenario_set_gain_def)
  have h2: "fst (send_to_modhost engine_add_only
                   (param_set_command nat_platform scenario_set_gain) scenario_loaded) = None"
    by (simp add: send_to_modhost_def engine_add_only_def param_set_command_def
          scenario_set_gain_def)
  have h3: "fst (send_to_modhost engine_ok
                   (param_set_command nat_platform scenario_set_gain) scenario_loaded)
              = Some ''resp 0''"
    by (simp add: send_to_modhost_def engine_ok_def)
  have i: "instances scenario_loaded = [(''plugin_0_01234567'', scenario_instance)]"
    by (simp add: scenario_loaded_eq)
  have u: "scenario_instance\<lparr>parameters :=
             AList.update (sp_parameter scenario_set_gain) (sp_req_value scenario_set_gain)
               (parameters scenario_instance)\<rparr>
           = scenario_instance\<lparr>parameters := [(''gain'', 7)]\<rparr>"
    by (simp add: scenario_instance_def scenario_set_gain_def)
  have id: "sp_instance_id scenario_set_gain = ''plugin_0_01234567''"
    by (simp add: scenario_set_gain_def)
  show ?thesis
    using stored_parameters_follow_registry
      [where pf = nat_platform and ind = ind0 and bytes = "''param_set 0 gain 2'' @ [NUL]"
         and line_buffer = "[]" and w = scenario_loaded and sreq = scenario_set_gain
         and inst = scenario_instance and mh = engine_add_only and mh' = engine_ok
         and r = "''resp 0''" and lreq = scenario_request
         and ?w0.0 = "example_manager [(''A'', plugin_A)] None"
         and iid = "''plugin_0_01234567''" and linst = scenario_instance
         and w0' = scenario_loaded]
      h1 h2 h3 scenario_load_result
    unfolding u id i
    by simp
qed

lemma response_7 [simp]: "response_of ''7'' = ''7''"
  by (simp add: response_of_def string_of_cstr_def NUL_def)

lemma parse_7 [simp]: "parse_returned_instance ''7'' = Inr 7"
  by code_simp

lemma claimed_malformed_7: "claimed_malformed ''7''"
  by (simp add: claimed_malformed_def)

text \<open>
  C7 as stated fails. The answer \<^verbatim>\<open>7\<close> to \<^verbatim>\<open>add A 0\<close> is malformed (it has no
  \<^verbatim>\<open>resp \<close>), and the load succeeds: the code removes the prefix only if it is
  present, reads 7 as the engine instance, stores the instance and publishes
  \<open>plugin_loaded\<close>.
\<close>

theorem load_plugin_accepts_bare_integer:
  "claimed_malformed ''7''
   \<and> engine_bare_integer () (written_bytes ''add A 0'') = (Received ''7'', ())
   \<and> fst (process_load_plugin nat_platform engine_bare_integer scenario_request
            (example_manager [(''A'', plugin_A)] None))
       = Inr (LoadPluginResponse ''plugin_0_01234567''
                (scenario_instance\<lparr>host_instance := Some 7\<rparr>))
   \<and> instances (snd (process_load_plugin nat_platform engine_bare_integer scenario_request
                        (example_manager [(''A'', plugin_A)] None)))
       = [(''plugin_0_01234567'', scenario_instance\<lparr>host_instance := Some 7\<rparr>)]
   \<and> pub_socket (snd (process_load_plugin nat_platform engine_bare_integer scenario_request
                         (example_manager [(''A'', plugin_A)] None)))
       = Some [JObject [(''type'', JString ''plugin_loaded''), (''timestamp'', JInt 0),
                        (''data'', JObject [(''instance_id'', JString ''plugin_0_01234567''),
                                            (''uri'', JString ''A''), (''name'', JString ''A'')])]]"
  by (simp add: claimed_malformed_7 scenario_request_def process_load_plugin_def
        example_manager_def generate_instance_id_def get_next_numeric_instance_def
        send_to_modhost_def engine_bare_integer_def publish_event_def Let_def
        scenario_instance_def plugin_A_def example_plugin_def)

end
